theory Spec2Isabelle
  imports Complex_Main "HOL-Library.Sublist"
begin

section \<open>Python values\<close>

text \<open>
  The script \<^verbatim>\<open>src/streamlit/cortex_analyst_demo.py\<close> keeps a chat transcript in
  Streamlit's session state, sends it to Cortex Analyst through one SQL statement and
  stores what comes back. This theory embeds the functions of that script.

  A Python \<^verbatim>\<open>str\<close> is modelled as the list of its UTF-8 bytes: concatenation, equality,
  emptiness and the substring test of valid texts are the same on code points and on their
  UTF-8 encoding. A raised \<^verbatim>\<open>Exception\<close> is modelled by the text \<^verbatim>\<open>str(e)\<close>, which is
  all the script ever reads from one. The texts of the \<^verbatim>\<open>TypeError\<close>s below are those
  CPython 3.11 prints; no theorem depends on their wording.
\<close>

type_synonym exn = string

datatype pyfloat = Finite rat | PosInf | NegInf | NaN

text \<open>
  What \<^verbatim>\<open>json.loads\<close> can return: \<^verbatim>\<open>None\<close>, a bool, an int, a float, a str, a list or a
  dict (in insertion order, keys distinct).
\<close>

datatype json =
    JNull
  | JBool bool
  | JInt int
  | JFloat pyfloat
  | JStr string
  | JArr "json list"
  | JObj "(string \<times> json) list"

text \<open>Python truthiness, as tested by \<^verbatim>\<open>if x:\<close> and \<^verbatim>\<open>a and b\<close>.\<close>

fun truthy :: "json \<Rightarrow> bool" where
  "truthy JNull = False"
| "truthy (JBool b) = b"
| "truthy (JInt n) = (n \<noteq> 0)"
| "truthy (JFloat f) = (f \<noteq> Finite 0)"
| "truthy (JStr s) = (s \<noteq> [])"
| "truthy (JArr xs) = (xs \<noteq> [])"
| "truthy (JObj kvs) = (kvs \<noteq> [])"

fun type_name :: "json \<Rightarrow> string" where
  "type_name JNull = ''NoneType''"
| "type_name (JBool b) = ''bool''"
| "type_name (JInt n) = ''int''"
| "type_name (JFloat f) = ''float''"
| "type_name (JStr s) = ''str''"
| "type_name (JArr xs) = ''list''"
| "type_name (JObj kvs) = ''dict''"

definition sq :: string where
  "sq = [CHR 0x27]"

definition nl :: string where
  "nl = [CHR 0x0A]"

text \<open>
  \<^verbatim>\<open>k in v\<close> for a str \<^verbatim>\<open>k\<close>: key membership in a dict, substring test in a str, element
  test in a list, and a \<^verbatim>\<open>TypeError\<close> on every other value.
\<close>

fun py_in :: "string \<Rightarrow> json \<Rightarrow> exn + bool" where
  "py_in k (JObj kvs) = Inr (k \<in> set (map fst kvs))"
| "py_in k (JStr s) = Inr (sublist k s)"
| "py_in k (JArr xs) = Inr (JStr k \<in> set xs)"
| "py_in k v = Inl (''argument of type '' @ sq @ type_name v @ sq @ '' is not iterable'')"

text \<open>\<^verbatim>\<open>v[k]\<close> for a str \<^verbatim>\<open>k\<close>.\<close>

fun py_getitem :: "string \<Rightarrow> json \<Rightarrow> exn + json" where
  "py_getitem k (JObj kvs) =
     (case map_of kvs k of Some v \<Rightarrow> Inr v | None \<Rightarrow> Inl (sq @ k @ sq))"
| "py_getitem k (JStr s) = Inl (''string indices must be integers, not '' @ sq @ ''str'' @ sq)"
| "py_getitem k (JArr xs) = Inl ''list indices must be integers or slices, not str''"
| "py_getitem k v = Inl (sq @ type_name v @ sq @ '' object is not subscriptable'')"

text \<open>
  Iterating a str yields its code points, each a str of its own. A byte from 0x80 to 0xBF
  continues the code point that the byte before it belongs to.
\<close>

definition is_cont :: "char \<Rightarrow> bool" where
  "is_cont c = (128 \<le> (of_char c :: nat) \<and> (of_char c :: nat) < 192)"

fun utf8_chars :: "string \<Rightarrow> string list" where
  "utf8_chars [] = []"
| "utf8_chars (c # cs) =
     (case utf8_chars cs of
        [] \<Rightarrow> [[c]]
      | [] # rest \<Rightarrow> [c] # rest
      | (d # ds) # rest \<Rightarrow>
          if is_cont d then (c # d # ds) # rest else [c] # (d # ds) # rest)"

text \<open>\<^verbatim>\<open>for x in v\<close>: the elements of a list, the code points of a str, the keys of a dict.\<close>

fun py_iter :: "json \<Rightarrow> exn + json list" where
  "py_iter (JArr xs) = Inr xs"
| "py_iter (JStr s) = Inr (map JStr (utf8_chars s))"
| "py_iter (JObj kvs) = Inr (map (\<lambda>kv. JStr (fst kv)) kvs)"
| "py_iter v = Inl (sq @ type_name v @ sq @ '' object is not iterable'')"

text \<open>\<^verbatim>\<open>k in r and r[k]\<close>, as a condition.\<close>

definition present_and_truthy :: "string \<Rightarrow> json \<Rightarrow> exn + bool" where
  "present_and_truthy k r =
     (case py_in k r of
        Inl e \<Rightarrow> Inl e
      | Inr False \<Rightarrow> Inr False
      | Inr True \<Rightarrow> (case py_getitem k r of Inl e \<Rightarrow> Inl e | Inr v \<Rightarrow> Inr (truthy v)))"

section \<open>Session state and the world outside\<close>

text \<open>One entry of \<^verbatim>\<open>st.session_state.messages\<close>: a dict with the keys role and content.\<close>

record turn =
  role :: string
  content :: json

text \<open>
  The three keys of \<^verbatim>\<open>st.session_state\<close> after the initialisation at lines 51-52 and
  94-99. \<^verbatim>\<open>user_input\<close> is the queued question: the empty str, a sample question, or an
  element of a reply's suggestions.
\<close>

record session_state =
  messages :: "turn list"
  user_input :: json
  selected_semantic_model_path :: string


definition init_session :: "string \<Rightarrow> session_state" where
  "init_session path =
     \<lparr>messages = [], user_input = JStr [], selected_semantic_model_path = path\<rparr>"

text \<open>
  The world outside the script has a state of its own, of any type \<open>'w\<close>. The model adds
  one log to it: the text of every statement sent to Cortex Analyst, in order.
\<close>

record 'w world =
  analyst_queries :: "string list"
  outside :: 'w

text \<open>
  A call can end in three ways: it returns, it raises an \<^verbatim>\<open>Exception\<close> (which the
  script's \<^verbatim>\<open>except Exception\<close> clauses catch), or it raises one of the exceptions by which
  Streamlit stops or reruns the script in the middle of a run. Those are outside the class
  \<^verbatim>\<open>Exception\<close>, no clause of the script catches them, and the run ends where they are
  raised. \<open>Exc e\<close> is the first kind of exception, \<open>Stop\<close> the second.
\<close>

datatype signal = Exc exn | Stop

text \<open>
  What the script calls and does not define. Each call may change the world.
  \<^item> \<open>sql_collect q\<close> is \<^verbatim>\<open>session.sql(q).collect()\<close>: the milliseconds the call took, and
    either the exception or the rows, each row given by its RESPONSE column (\<open>None\<close> for
    SQL NULL).
  \<^item> \<open>json_dumps\<close> and \<open>json_loads\<close> are the standard library's functions; each can raise.
  \<^item> \<open>draw\<close> is any Streamlit call that puts an element on the page (\<^verbatim>\<open>st.write\<close>,
    \<^verbatim>\<open>st.subheader\<close>, \<^verbatim>\<open>st.code\<close>, \<^verbatim>\<open>st.error\<close>, \<^verbatim>\<open>st.chat_message\<close>, \<^verbatim>\<open>st.spinner\<close>, and
    the drawing of a button): \<open>True\<close> when the runtime stops the script in that call.
  \<^item> \<open>execute_button\<close> is the button of line 169 and \<open>suggestion_button x\<close> the button of
    line 208 with its key \<^verbatim>\<open>hash(x)\<close>: the exception raised while the button is set up, or
    whether it reports a click.
  \<^item> \<open>clear_button\<close> is the whole call of the button of line 281, which no \<^verbatim>\<open>try\<close>
    encloses: \<open>Inl\<close> when the call does not return, whatever the exception, or whether it
    reports a click.
  \<^item> \<open>execute_query\<close> is the guarded block of lines 170-202: it catches every
    \<^verbatim>\<open>Exception\<close> and touches no session state; \<open>True\<close> when the script is stopped in it.
\<close>

record 'w env =
  sql_collect :: "string \<Rightarrow> 'w \<Rightarrow> (nat \<times> (exn + string option list)) \<times> 'w"
  json_dumps :: "turn list \<Rightarrow> exn + string"
  json_loads :: "string \<Rightarrow> exn + json"
  draw :: "'w \<Rightarrow> bool \<times> 'w"
  execute_button :: "'w \<Rightarrow> (exn + bool) \<times> 'w"
  execute_query :: "json \<Rightarrow> 'w \<Rightarrow> bool \<times> 'w"
  suggestion_button :: "json \<Rightarrow> 'w \<Rightarrow> (exn + bool) \<times> 'w"
  clear_button :: "'w \<Rightarrow> (exn + bool) \<times> 'w"

section \<open>get_analyst_response\<close>

definition API_TIMEOUT :: nat where
  "API_TIMEOUT = 30000"

definition ind8 :: string where
  "ind8 = ''        ''"

definition ind12 :: string where
  "ind12 = ''            ''"

text \<open>The f-string of lines 119-124.\<close>

definition sql_query :: "string \<Rightarrow> string \<Rightarrow> string" where
  "sql_query dumped path =
     nl @ ind8 @ ''SELECT SNOWFLAKE.CORTEX.ANALYST('' @
     nl @ ind12 @ sq @ dumped @ sq @ '','' @
     nl @ ind12 @ sq @ path @ sq @
     nl @ ind8 @ '') as response'' @
     nl @ ind8"

definition siren :: string where
  "siren = [CHR 0xF0, CHR 0x9F, CHR 0x9A, CHR 0xA8]"

definition error_head :: string where
  "error_head =
     nl @ ind8 @ siren @ '' An error occurred while calling Cortex Analyst '' @ siren @
     nl @ ind8 @
     nl @ ind8 @ ''**Error Details:**'' @
     nl @ ind8 @ ''```'' @
     nl @ ind8"

definition error_tail :: string where
  "error_tail =
     nl @ ind8 @ ''```'' @
     nl @ ind8 @
     nl @ ind8 @ ''**Troubleshooting Tips:**'' @
     nl @ ind8 @ ''- Verify your semantic model path is correct'' @
     nl @ ind8 @ ''- Ensure you have CORTEX_USER permissions'' @
     nl @ ind8 @ ''- Check that the semantic model file exists in the specified stage'' @
     nl @ ind8 @ ''- Verify your Snowflake account has Cortex features enabled'' @
     nl @ ind8"

text \<open>The f-string of lines 137-150.\<close>

definition error_msg :: "exn \<Rightarrow> string" where
  "error_msg e = error_head @ e @ error_tail"

definition no_response :: string where
  "no_response = ''No response received from Cortex Analyst''"

text \<open>\<^verbatim>\<open>json.loads(result[0]['RESPONSE'])\<close>; \<^verbatim>\<open>json.loads(None)\<close> is a \<^verbatim>\<open>TypeError\<close>.\<close>

definition loads_row :: "'w env \<Rightarrow> string option \<Rightarrow> exn + json" where
  "loads_row env r =
     (case r of
        None \<Rightarrow> Inl ''the JSON object must be str, bytes or bytearray, not NoneType''
      | Some response_str \<Rightarrow> json_loads env response_str)"

text \<open>Lines 129-134, on the value of \<^verbatim>\<open>session.sql(sql_query).collect()\<close>.\<close>

definition read_result :: "'w env \<Rightarrow> exn + string option list \<Rightarrow> exn + (json \<times> string option)" where
  "read_result env res =
     (case res of
        Inl e \<Rightarrow> Inl e
      | Inr [] \<Rightarrow> Inr (JObj [], Some no_response)
      | Inr (r # rest) \<Rightarrow>
          (case loads_row env r of
             Inl e \<Rightarrow> Inl e
           | Inr parsed_response \<Rightarrow> Inr (parsed_response, None)))"

text \<open>
  Lines 119-124: the statement, or the exception \<^verbatim>\<open>json.dumps(messages)\<close> raises while the
  f-string is built.
\<close>

definition statement :: "'w env \<Rightarrow> session_state \<Rightarrow> turn list \<Rightarrow> exn + string" where
  "statement env ss msgs =
     (case json_dumps env msgs of
        Inl e \<Rightarrow> Inl e
      | Inr dumped \<Rightarrow> Inr (sql_query dumped (selected_semantic_model_path ss)))"

text \<open>
  The body of the \<^verbatim>\<open>try\<close>, lines 112-134: build the statement, send it (the log grows by
  that statement), read the result. \<open>Inl\<close> is an exception leaving the body; when building
  the statement raises, nothing is sent. The time the call took is not read.
\<close>

definition try_body ::
  "'w env \<Rightarrow> session_state \<Rightarrow> turn list \<Rightarrow> 'w world \<Rightarrow> (exn + (json \<times> string option)) \<times> 'w world" where
  "try_body env ss msgs wd =
     (case statement env ss msgs of
        Inl e \<Rightarrow> (Inl e, wd)
      | Inr q \<Rightarrow>
          (case sql_collect env q (outside wd) of
             ((elapsed, res), w') \<Rightarrow>
               (read_result env res, \<lparr>analyst_queries = analyst_queries wd @ [q], outside = w'\<rparr>)))"

text \<open>
  Lines 101-151. The result is \<open>Inr (response, error)\<close> when the function returns and
  \<open>Inl e\<close> when an exception leaves it.
\<close>

definition get_analyst_response ::
  "'w env \<Rightarrow> session_state \<Rightarrow> turn list \<Rightarrow> 'w world \<Rightarrow> (exn + (json \<times> string option)) \<times> 'w world" where
  "get_analyst_response env ss msgs wd =
     (case try_body env ss msgs wd of
        (Inr r, wd') \<Rightarrow> (Inr r, wd')
      | (Inl e, wd') \<Rightarrow> (Inr (JObj [], Some (error_msg e)), wd'))"

section \<open>Drawing\<close>

text \<open>
  The state a block of the script runs in: the session state and the world. A block
  returns \<open>None\<close> when it runs to its end, and \<open>Some\<close> of the signal that left it, with the
  state reached so far.
\<close>

type_synonym 'w state = "session_state \<times> 'w world"

text \<open>\<open>n\<close> drawing calls in a row; the first one that is stopped ends the run.\<close>

fun draws :: "'w env \<Rightarrow> nat \<Rightarrow> 'w \<Rightarrow> bool \<times> 'w" where
  "draws env 0 w = (False, w)"
| "draws env (Suc n) w =
     (case draw env w of (True, w') \<Rightarrow> (True, w') | (False, w') \<Rightarrow> draws env n w')"

definition drawing :: "'w env \<Rightarrow> nat \<Rightarrow> 'w state \<Rightarrow> signal option \<times> 'w state" where
  "drawing env n st =
     (case st of (ss, wd) \<Rightarrow>
        (case draws env n (outside wd) of
           (stopped, w') \<Rightarrow> ((if stopped then Some Stop else None), ss, wd\<lparr>outside := w'\<rparr>)))"

text \<open>
  \<^verbatim>\<open>st.button(...)\<close>: setting the button up can raise (a key that is already in use, a value
  that cannot be hashed); then the button is drawn, where the script can be stopped; then
  the call returns whether the button was clicked.
\<close>

definition button_call ::
  "'w env \<Rightarrow> ('w \<Rightarrow> (exn + bool) \<times> 'w) \<Rightarrow> 'w state \<Rightarrow> (signal + bool) \<times> 'w state" where
  "button_call env button st =
     (case st of (ss, wd) \<Rightarrow>
        (case button (outside wd) of
           (Inl e, w1) \<Rightarrow> (Inl (Exc e), ss, wd\<lparr>outside := w1\<rparr>)
         | (Inr clicked, w1) \<Rightarrow>
             (case draw env w1 of
                (True, w2) \<Rightarrow> (Inl Stop, ss, wd\<lparr>outside := w2\<rparr>)
              | (False, w2) \<Rightarrow> (Inr clicked, ss, wd\<lparr>outside := w2\<rparr>))))"

section \<open>display_response\<close>

text \<open>
  Lines 160-161: \<^verbatim>\<open>response["message"]\<close> is read and written when
  \<^verbatim>\<open>"message" in response\<close>.
\<close>

definition show_message :: "'w env \<Rightarrow> json \<Rightarrow> 'w state \<Rightarrow> signal option \<times> 'w state" where
  "show_message env response st =
     (case py_in ''message'' response of
        Inl e \<Rightarrow> (Some (Exc e), st)
      | Inr False \<Rightarrow> (None, st)
      | Inr True \<Rightarrow>
          (case py_getitem ''message'' response of
             Inl e \<Rightarrow> (Some (Exc e), st)
           | Inr v \<Rightarrow> drawing env 1 st))"

text \<open>
  Lines 164-202: the heading and the generated SQL are drawn (lines 165-166), then the
  button that runs the SQL, then the guarded block when the button reports a click.
\<close>

definition show_sql :: "'w env \<Rightarrow> json \<Rightarrow> 'w state \<Rightarrow> signal option \<times> 'w state" where
  "show_sql env response st =
     (case present_and_truthy ''sql'' response of
        Inl e \<Rightarrow> (Some (Exc e), st)
      | Inr False \<Rightarrow> (None, st)
      | Inr True \<Rightarrow>
          (case drawing env 2 st of
             (Some s, st1) \<Rightarrow> (Some s, st1)
           | (None, st1) \<Rightarrow>
               (case button_call env (execute_button env) st1 of
                  (Inl s, st2) \<Rightarrow> (Some s, st2)
                | (Inr False, st2) \<Rightarrow> (None, st2)
                | (Inr True, ss, wd) \<Rightarrow>
                    (case py_getitem ''sql'' response of
                       Inl e \<Rightarrow> (None, ss, wd)
                     | Inr q \<Rightarrow>
                         (case execute_query env q (outside wd) of
                            (stopped, w') \<Rightarrow>
                              ((if stopped then Some Stop else None), ss, wd\<lparr>outside := w'\<rparr>))))))"

text \<open>
  Lines 207-209: one button for each suggestion; a button that reports a click queues its
  suggestion in \<^verbatim>\<open>st.session_state.user_input\<close>.
\<close>

fun suggestion_buttons :: "'w env \<Rightarrow> json list \<Rightarrow> 'w state \<Rightarrow> signal option \<times> 'w state" where
  "suggestion_buttons env [] st = (None, st)"
| "suggestion_buttons env (suggestion # rest) st =
     (case button_call env (suggestion_button env suggestion) st of
        (Inl s, st1) \<Rightarrow> (Some s, st1)
      | (Inr clicked, ss, wd) \<Rightarrow>
          suggestion_buttons env rest
            ((if clicked then ss\<lparr>user_input := suggestion\<rparr> else ss), wd))"

text \<open>
  Lines 205-209: the heading is drawn (line 206) before \<^verbatim>\<open>response["suggestions"]\<close> is
  iterated.
\<close>

definition show_suggestions :: "'w env \<Rightarrow> json \<Rightarrow> 'w state \<Rightarrow> signal option \<times> 'w state" where
  "show_suggestions env response st =
     (case present_and_truthy ''suggestions'' response of
        Inl e \<Rightarrow> (Some (Exc e), st)
      | Inr False \<Rightarrow> (None, st)
      | Inr True \<Rightarrow>
          (case drawing env 1 st of
             (Some s, st1) \<Rightarrow> (Some s, st1)
           | (None, st1) \<Rightarrow>
               (case py_getitem ''suggestions'' response of
                  Inl e \<Rightarrow> (Some (Exc e), st1)
                | Inr v \<Rightarrow>
                    (case py_iter v of
                       Inl e \<Rightarrow> (Some (Exc e), st1)
                     | Inr xs \<Rightarrow> suggestion_buttons env xs st1))))"

text \<open>Lines 153-209.\<close>

definition display_response :: "'w env \<Rightarrow> json \<Rightarrow> 'w state \<Rightarrow> signal option \<times> 'w state" where
  "display_response env response st =
     (case show_message env response st of
        (Some s, st1) \<Rightarrow> (Some s, st1)
      | (None, st1) \<Rightarrow>
          (case show_sql env response st1 of
             (Some s, st2) \<Rightarrow> (Some s, st2)
           | (None, st2) \<Rightarrow> show_suggestions env response st2))"

section \<open>The chat history and the input block\<close>

text \<open>
  Lines 215-224: every stored turn is drawn again, outside any \<^verbatim>\<open>try\<close>: its chat message
  container (line 216), then its content by \<^verbatim>\<open>st.write\<close> (lines 218 and 224) or, for an
  assistant turn whose content is a dict, by \<open>display_response\<close>.
\<close>

fun display_history :: "'w env \<Rightarrow> turn list \<Rightarrow> 'w state \<Rightarrow> signal option \<times> 'w state" where
  "display_history env [] st = (None, st)"
| "display_history env (message # rest) st =
     (if role message = ''user'' then
        (case drawing env 2 st of
           (Some s, st1) \<Rightarrow> (Some s, st1)
         | (None, st1) \<Rightarrow> display_history env rest st1)
      else
        (case content message of
           JObj kvs \<Rightarrow>
             (case drawing env 1 st of
                (Some s, st1) \<Rightarrow> (Some s, st1)
              | (None, st1) \<Rightarrow>
                  (case display_response env (JObj kvs) st1 of
                     (Some s, st2) \<Rightarrow> (Some s, st2)
                   | (None, st2) \<Rightarrow> display_history env rest st2))
         | _ \<Rightarrow>
             (case drawing env 2 st of
                (Some s, st1) \<Rightarrow> (Some s, st1)
              | (None, st1) \<Rightarrow> display_history env rest st1)))"

text \<open>
  \<^verbatim>\<open>st.chat_input\<close> returns \<^verbatim>\<open>None\<close> or the typed str; \<open>typed_text\<close> is the typed str when
  it is truthy.
\<close>

definition typed_text :: "string option \<Rightarrow> string option" where
  "typed_text typed = (case typed of None \<Rightarrow> None | Some s \<Rightarrow> if s = [] then None else Some s)"

text \<open>The condition of line 233.\<close>

definition accepted :: "string option \<Rightarrow> session_state \<Rightarrow> bool" where
  "accepted typed ss = (typed_text typed \<noteq> None \<or> truthy (user_input ss))"

definition append_turn :: "string \<Rightarrow> json \<Rightarrow> session_state \<Rightarrow> session_state" where
  "append_turn r c ss = ss\<lparr>messages := messages ss @ [\<lparr>role = r, content = c\<rparr>]\<rparr>"

text \<open>Lines 235-242: choose the input, empty the queue, append the user turn.\<close>

definition accept_input :: "string option \<Rightarrow> session_state \<Rightarrow> session_state" where
  "accept_input typed ss =
     (let current_input = (case typed_text typed of Some s \<Rightarrow> JStr s | None \<Rightarrow> user_input ss);
          ss1 = (if truthy (user_input ss) then ss\<lparr>user_input := JStr []\<rparr> else ss)
      in append_turn ''user'' current_input ss1)"

text \<open>\<^verbatim>\<open>if error:\<close> at line 254.\<close>

definition error_text :: "string option \<Rightarrow> string option" where
  "error_text error = (case error of None \<Rightarrow> None | Some m \<Rightarrow> if m = [] then None else Some m)"

text \<open>
  Lines 273-277: the handler draws the text by \<^verbatim>\<open>st.error\<close> and then appends it.
\<close>

definition report_unexpected :: "'w env \<Rightarrow> exn \<Rightarrow> 'w state \<Rightarrow> signal option \<times> 'w state" where
  "report_unexpected env e st =
     (case drawing env 1 st of
        (Some s, st1) \<Rightarrow> (Some s, st1)
      | (None, ss1, wd1) \<Rightarrow>
          (None, append_turn ''assistant'' (JStr (''Unexpected error: '' @ e)) ss1, wd1))"

text \<open>
  Lines 251-277, in the state the call is made in: the call, then in each of the three
  branches what is drawn (lines 255, 263, 273) and, after it, the assistant turn that is
  appended (lines 257, 266, 274). A \<open>Stop\<close> while drawing leaves the block with no assistant
  turn appended.
\<close>

definition answer :: "'w env \<Rightarrow> 'w state \<Rightarrow> signal option \<times> 'w state" where
  "answer env st =
     (case st of (ss, wd) \<Rightarrow>
        (case get_analyst_response env ss (messages ss) wd of
           (Inl e, wd1) \<Rightarrow> report_unexpected env e (ss, wd1)
         | (Inr (response, error), wd1) \<Rightarrow>
             (case error_text error of
                Some m \<Rightarrow>
                  (case drawing env 1 (ss, wd1) of
                     (Some s, st2) \<Rightarrow> (Some s, st2)
                   | (None, ss2, wd2) \<Rightarrow>
                       (None, append_turn ''assistant'' (JStr (''Error: '' @ m)) ss2, wd2))
              | None \<Rightarrow>
                  (case display_response env response (ss, wd1) of
                     (Some (Exc e), st2) \<Rightarrow> report_unexpected env e st2
                   | (Some Stop, st2) \<Rightarrow> (Some Stop, st2)
                   | (None, ss2, wd2) \<Rightarrow> (None, append_turn ''assistant'' response ss2, wd2)))))"

text \<open>
  Lines 244-277, after the user turn has been appended: the user's chat message and its
  text (lines 245-246), the assistant's chat message and the spinner (lines 249-250), then
  the call and the assistant turn.
\<close>

definition respond :: "'w env \<Rightarrow> 'w state \<Rightarrow> signal option \<times> 'w state" where
  "respond env st =
     (case drawing env 4 st of
        (Some s, st1) \<Rightarrow> (Some s, st1)
      | (None, st1) \<Rightarrow> answer env st1)"

text \<open>Lines 233-277.\<close>

definition handle_input :: "'w env \<Rightarrow> string option \<Rightarrow> 'w state \<Rightarrow> signal option \<times> 'w state" where
  "handle_input env typed st =
     (case st of (ss, wd) \<Rightarrow>
        if accepted typed ss then respond env (accept_input typed ss, wd) else (None, ss, wd))"

text \<open>
  Lines 280-283. \<^verbatim>\<open>st.rerun()\<close> ends the run; the flag says whether it was reached.
\<close>

datatype flow = Continue | Rerun | Raised exn

definition clear_chat :: "'w env \<Rightarrow> 'w state \<Rightarrow> flow \<times> 'w state" where
  "clear_chat env st =
     (case st of (ss, wd) \<Rightarrow>
        if messages ss \<noteq> [] then
          (case clear_button env (outside wd) of
             (Inl e, w') \<Rightarrow> (Raised e, ss, wd\<lparr>outside := w'\<rparr>)
           | (Inr False, w') \<Rightarrow> (Continue, ss, wd\<lparr>outside := w'\<rparr>)
           | (Inr True, w') \<Rightarrow> (Rerun, ss\<lparr>messages := []\<rparr>, wd\<lparr>outside := w'\<rparr>))
        else (Continue, ss, wd))"

text \<open>
  A run of the script reaches the input block with what \<^verbatim>\<open>st.chat_input\<close> returned and,
  when a sample or suggestion button was clicked (lines 73 and 209), with that question
  queued. \<open>interaction_loop\<close> is the input block over a sequence of such runs: it gives how
  each run ended and the state after the last one. A run that was stopped is followed by
  the next run, in the session state the stopped run left.
\<close>

definition enqueue :: "json option \<Rightarrow> session_state \<Rightarrow> session_state" where
  "enqueue queued ss = (case queued of None \<Rightarrow> ss | Some q \<Rightarrow> ss\<lparr>user_input := q\<rparr>)"

fun interaction_loop ::
  "'w env \<Rightarrow> (string option \<times> json option) list \<Rightarrow> 'w state \<Rightarrow> signal option list \<times> 'w state" where
  "interaction_loop env [] st = ([], st)"
| "interaction_loop env ((typed, queued) # rest) (ss, wd) =
     (case handle_input env typed (enqueue queued ss, wd) of
        (s, st1) \<Rightarrow>
          (case interaction_loop env rest st1 of
             (sigs, st2) \<Rightarrow> (s # sigs, st2)))"

text \<open>
  A run is accepted when it brings a truthy typed text or a truthy queued question.
\<close>

definition accepted_run :: "string option \<times> json option \<Rightarrow> bool" where
  "accepted_run run =
     (typed_text (fst run) \<noteq> None \<or> (case snd run of None \<Rightarrow> False | Some q \<Rightarrow> truthy q))"

text \<open>
  Lines 214-277 in one run: the chat history is drawn, then the input block runs with what
  \<^verbatim>\<open>st.chat_input\<close> returned. A signal in the history ends the run before the block.
\<close>

definition chat_section :: "'w env \<Rightarrow> string option \<Rightarrow> 'w state \<Rightarrow> signal option \<times> 'w state" where
  "chat_section env typed st =
     (case display_history env (messages (fst st)) st of
        (Some s, st1) \<Rightarrow> (Some s, st1)
      | (None, st1) \<Rightarrow> handle_input env typed st1)"

text \<open>
  What the \<^verbatim>\<open>try\<close> body of a round gets in session state \<open>ss\<close> and world \<open>wd\<close>: the exception
  raised while the statement is built or run, or the rows the statement returns.
\<close>

definition remote_result :: "'w env \<Rightarrow> session_state \<Rightarrow> 'w world \<Rightarrow> exn + string option list" where
  "remote_result env ss wd =
     (case statement env ss (messages ss) of
        Inl e \<Rightarrow> Inl e
      | Inr q \<Rightarrow> snd (fst (sql_collect env q (outside wd))))"

text \<open>
  A field of a decoded reply is empty when its key is absent or its value is falsy
  (\<^verbatim>\<open>None\<close>, the empty str, the empty list, ...).
\<close>

definition field_empty :: "string \<Rightarrow> (string \<times> json) list \<Rightarrow> bool" where
  "field_empty k kvs = (case map_of kvs k of None \<Rightarrow> True | Some v \<Rightarrow> \<not> truthy v)"

text \<open>
  The suggestion buttons that \<open>display_response\<close> draws for a reply, and those the chat
  history draws for a stored turn.
\<close>

definition drawn_suggestions :: "json \<Rightarrow> json list" where
  "drawn_suggestions response =
     (case present_and_truthy ''suggestions'' response of
        Inr True \<Rightarrow>
          (case py_getitem ''suggestions'' response of
             Inr v \<Rightarrow> (case py_iter v of Inr xs \<Rightarrow> xs | Inl e \<Rightarrow> [])
           | Inl e \<Rightarrow> [])
      | _ \<Rightarrow> [])"

definition offered :: "turn \<Rightarrow> json list" where
  "offered message =
     (if role message = ''user'' then []
      else (case content message of JObj kvs \<Rightarrow> drawn_suggestions (JObj kvs) | _ \<Rightarrow> []))"

text \<open>
  \<open>delayed t env\<close> is \<open>env\<close> with every statement taking \<open>t\<close> milliseconds and
  otherwise answering as before.
\<close>

definition delayed :: "nat \<Rightarrow> 'w env \<Rightarrow> 'w env" where
  "delayed t env =
     env\<lparr>sql_collect := (\<lambda>q w. case sql_collect env q w of ((elapsed, res), w') \<Rightarrow> ((t, res), w'))\<rparr>"

section \<open>Concrete environments\<close>

text \<open>
  For the examples: \<open>reply_table\<close> decodes the texts it lists and raises on every other
  text; \<open>fixed_env\<close> answers every statement with the same duration and result, gives the
  same text for every transcript it serialises, stops no drawing call, reports the
  suggestion buttons chosen by \<open>clicked\<close> and the clear button as clicked, and the execute
  button as not clicked.
\<close>

definition reply_table :: "(string \<times> json) list \<Rightarrow> string \<Rightarrow> exn + json" where
  "reply_table tab s =
     (case map_of tab s of Some v \<Rightarrow> Inr v | None \<Rightarrow> Inl ''Expecting value: line 1 column 1 (char 0)'')"

definition fixed_env ::
  "nat \<Rightarrow> (exn + string option list) \<Rightarrow> string \<Rightarrow> (string \<Rightarrow> exn + json) \<Rightarrow> (json \<Rightarrow> bool) \<Rightarrow> unit env" where
  "fixed_env ms res dumped loads clicked =
     \<lparr>sql_collect = (\<lambda>q w. ((ms, res), w)),
      json_dumps = (\<lambda>msgs. Inr dumped),
      json_loads = loads,
      draw = (\<lambda>w. (False, w)),
      execute_button = (\<lambda>w. (Inr False, w)),
      execute_query = (\<lambda>q w. (False, w)),
      suggestion_button = (\<lambda>x w. (Inr (clicked x), w)),
      clear_button = (\<lambda>w. (Inr True, w))\<rparr>"

definition world0 :: "unit world" where
  "world0 = \<lparr>analyst_queries = [], outside = ()\<rparr>"

text \<open>
  \<open>stopping_env k env\<close> answers as \<open>env\<close> does and counts the drawing calls: the runtime
  stops the script in drawing call number \<open>k\<close> (counted from 0) and in no other.
  \<open>counting0\<close> is its world before the first drawing call.
\<close>

definition stopping_env :: "nat \<Rightarrow> unit env \<Rightarrow> nat env" where
  "stopping_env k env =
     \<lparr>sql_collect = (\<lambda>q n. (fst (sql_collect env q ()), n)),
      json_dumps = json_dumps env,
      json_loads = json_loads env,
      draw = (\<lambda>n. (n = k, Suc n)),
      execute_button = (\<lambda>n. (fst (execute_button env ()), n)),
      execute_query = (\<lambda>q n. (fst (execute_query env q ()), n)),
      suggestion_button = (\<lambda>x n. (fst (suggestion_button env x ()), n)),
      clear_button = (\<lambda>n. (fst (clear_button env ()), n))\<rparr>"

definition counting0 :: "nat world" where
  "counting0 = \<lparr>analyst_queries = [], outside = 0\<rparr>"

text \<open>
  Texts of the examples: what \<^verbatim>\<open>json.dumps\<close> gives for a transcript holding the one user
  turn "hi", and a reply of the service. \<open>slow_env\<close> answers after 31 seconds,
  \<open>empty_reply_env\<close> with the reply \<^verbatim>\<open>{}\<close>, \<open>text_reply_env\<close> with a reply that is a JSON
  string and not a JSON object, \<open>failing_env\<close> with an exception.
\<close>

definition hi_dumped :: string where
  \<open>hi_dumped = ''[{"role": "user", "content": "hi"}]''\<close>

definition hi_reply :: string where
  \<open>hi_reply = ''{"message": "Total revenue was $1.2M"}''\<close>

definition slow_env :: "unit env" where
  "slow_env = fixed_env 31000 (Inr [Some hi_reply]) hi_dumped
     (reply_table [(hi_reply, JObj [(''message'', JStr ''Total revenue was $1.2M'')])]) (\<lambda>x. False)"

definition empty_reply_env :: "unit env" where
  "empty_reply_env = fixed_env 120 (Inr [Some ''{}'']) hi_dumped
     (reply_table [(''{}'', JObj [])]) (\<lambda>x. False)"

definition text_reply :: string where
  \<open>text_reply = ''"hello"''\<close>

definition text_reply_env :: "unit env" where
  "text_reply_env = fixed_env 120 (Inr [Some text_reply]) hi_dumped
     (reply_table [(text_reply, JStr ''hello'')]) (\<lambda>x. False)"

definition failing_env :: "unit env" where
  "failing_env = fixed_env 120 (Inl ''Unknown function ANALYST'') hi_dumped
     (reply_table []) (\<lambda>x. False)"

text \<open>
  \<open>offering s\<close> is a transcript whose assistant turn carries the one suggestion \<open>s\<close>, and
  \<open>click_env s\<close> reports the buttons of suggestion \<open>s\<close> as clicked and raises on the
  statement it is sent.
\<close>

definition trends :: string where
  "trends = ''Show me revenue trends by region''"

definition click_env :: "string \<Rightarrow> unit env" where
  "click_env s = fixed_env 120 (Inl ''boom'') ''[]'' (reply_table []) (\<lambda>y. y = JStr s)"

definition offering :: "string \<Rightarrow> session_state" where
  "offering s =
     \<lparr>messages = [\<lparr>role = ''user'', content = JStr ''hi''\<rparr>,
                  \<lparr>role = ''assistant'', content = JObj [(''suggestions'', JArr [JStr s])]\<rparr>],
      user_input = JStr [], selected_semantic_model_path = ''m.yaml''\<rparr>"

text \<open>
  \<open>answered_then_stopped\<close> answers after 31 seconds with a reply and stops the script in
  its fifth drawing call, the \<^verbatim>\<open>st.write\<close> of the reply's message (line 161).
\<close>

definition answered_then_stopped :: "nat env" where
  "answered_then_stopped = stopping_env 4 slow_env"

text \<open>
  \<open>failed_then_stopped\<close> raises on the statement it is sent and stops the script in its
  fifth drawing call, the \<^verbatim>\<open>st.error\<close> of line 255.
\<close>

definition failed_then_stopped :: "nat env" where
  "failed_then_stopped = stopping_env 4 failing_env"

section \<open>Frame lemmas\<close>

lemma error_msg_nonempty: "error_msg e \<noteq> []"
  by (simp add: error_msg_def error_head_def nl_def)

lemma drawing_frame:
  "drawing env n (ss, wd) = (r, ss', wd') \<Longrightarrow>
     ss' = ss \<and> analyst_queries wd' = analyst_queries wd \<and> (r = None \<or> r = Some Stop)"
  by (auto simp: drawing_def split: prod.splits if_splits)

lemma button_call_frame:
  "button_call env button (ss, wd) = (r, ss', wd') \<Longrightarrow>
     ss' = ss \<and> analyst_queries wd' = analyst_queries wd"
  by (auto simp: button_call_def split: prod.splits sum.splits bool.splits)

lemma suggestion_buttons_frame:
  "suggestion_buttons env xs (ss, wd) = (r, ss', wd') \<Longrightarrow>
     messages ss' = messages ss \<and> analyst_queries wd' = analyst_queries wd \<and>
     selected_semantic_model_path ss' = selected_semantic_model_path ss"
proof (induction xs arbitrary: ss wd)
  case Nil
  then show ?case by simp
next
  case (Cons x xs)
  obtain b ss1 wd1 where bc: "button_call env (suggestion_button env x) (ss, wd) = (b, ss1, wd1)"
    by (cases "button_call env (suggestion_button env x) (ss, wd)") auto
  from button_call_frame[OF bc] have f: "ss1 = ss" "analyst_queries wd1 = analyst_queries wd"
    by simp_all
  show ?case
  proof (cases b)
    case (Inl s)
    with Cons.prems bc f show ?thesis by simp
  next
    case (Inr clicked)
    with Cons.prems bc
    have "suggestion_buttons env xs ((if clicked then ss1\<lparr>user_input := x\<rparr> else ss1), wd1) = (r, ss', wd')"
      by simp
    from Cons.IH[OF this] f show ?thesis by (simp split: if_splits)
  qed
qed

lemma show_message_frame:
  "show_message env response (ss, wd) = (r, ss', wd') \<Longrightarrow>
     ss' = ss \<and> analyst_queries wd' = analyst_queries wd"
  by (auto simp: show_message_def split: sum.splits bool.splits dest: drawing_frame)

lemma show_sql_frame:
  "show_sql env response (ss, wd) = (r, ss', wd') \<Longrightarrow>
     ss' = ss \<and> analyst_queries wd' = analyst_queries wd"
  by (auto simp: show_sql_def split: sum.splits bool.splits prod.splits option.splits
      dest!: drawing_frame button_call_frame)

lemma show_suggestions_frame:
  "show_suggestions env response (ss, wd) = (r, ss', wd') \<Longrightarrow>
     messages ss' = messages ss \<and> analyst_queries wd' = analyst_queries wd \<and>
     selected_semantic_model_path ss' = selected_semantic_model_path ss"
  by (auto simp: show_suggestions_def split: sum.splits bool.splits prod.splits option.splits
      dest!: drawing_frame suggestion_buttons_frame)

lemma display_response_frame:
  "display_response env response (ss, wd) = (r, ss', wd') \<Longrightarrow>
     messages ss' = messages ss \<and> analyst_queries wd' = analyst_queries wd \<and>
     selected_semantic_model_path ss' = selected_semantic_model_path ss"
  by (auto simp: display_response_def split: option.splits prod.splits
      dest!: show_message_frame show_sql_frame show_suggestions_frame)

lemma get_analyst_response_Inr:
  "\<exists>r wd'. get_analyst_response env ss msgs wd = (Inr r, wd')"
  by (auto simp: get_analyst_response_def split: prod.splits sum.splits)

lemma report_unexpected_cases:
  "report_unexpected env e (ss, wd) = (r, ss', wd') \<Longrightarrow>
     analyst_queries wd' = analyst_queries wd \<and>
     (r = None \<and> ss' = append_turn ''assistant'' (JStr (''Unexpected error: '' @ e)) ss \<or>
      r = Some Stop \<and> ss' = ss)"
  by (auto simp: report_unexpected_def split: option.splits prod.splits dest!: drawing_frame)

lemma answer_messages:
  assumes "answer env (ss, wd) = (r, ss', wd')"
  shows "r = None \<and> (\<exists>c. messages ss' = messages ss @ [\<lparr>role = ''assistant'', content = c\<rparr>]) \<or>
         r = Some Stop \<and> messages ss' = messages ss"
proof -
  obtain response error wd1 where g:
    "get_analyst_response env ss (messages ss) wd = (Inr (response, error), wd1)"
    using get_analyst_response_Inr[of env ss "messages ss" wd] by auto
  show ?thesis
  proof (cases "error_text error")
    case (Some m)
    with assms g show ?thesis
      by (auto simp: answer_def append_turn_def split: option.splits prod.splits dest!: drawing_frame)
  next
    case None
    obtain d ss2 wd2 where d: "display_response env response (ss, wd1) = (d, ss2, wd2)"
      by (cases "display_response env response (ss, wd1)") auto
    from display_response_frame[OF d] have m: "messages ss2 = messages ss" by simp
    show ?thesis
    proof (cases d)
      case None
      with assms g \<open>error_text error = None\<close> d m show ?thesis
        by (auto simp: answer_def append_turn_def)
    next
      case (Some s)
      show ?thesis
      proof (cases s)
        case (Exc e)
        with assms g \<open>error_text error = None\<close> d Some
        have "report_unexpected env e (ss2, wd2) = (r, ss', wd')"
          by (simp add: answer_def)
        from report_unexpected_cases[OF this] m show ?thesis
          by (auto simp: append_turn_def)
      next
        case Stop
        with assms g \<open>error_text error = None\<close> d Some m show ?thesis
          by (auto simp: answer_def)
      qed
    qed
  qed
qed

lemma respond_messages:
  assumes "respond env (ss, wd) = (r, ss', wd')"
  shows "r = None \<and> (\<exists>c. messages ss' = messages ss @ [\<lparr>role = ''assistant'', content = c\<rparr>]) \<or>
         r = Some Stop \<and> messages ss' = messages ss"
proof -
  obtain d ss1 wd1 where d: "drawing env 4 (ss, wd) = (d, ss1, wd1)"
    by (cases "drawing env 4 (ss, wd)") auto
  from drawing_frame[OF d] have f: "ss1 = ss" "d = None \<or> d = Some Stop" by simp_all
  show ?thesis
  proof (cases d)
    case None
    with assms d have "answer env (ss1, wd1) = (r, ss', wd')"
      by (simp add: respond_def)
    from answer_messages[OF this] f show ?thesis by simp
  next
    case (Some s)
    with assms d f show ?thesis
      by (auto simp: respond_def)
  qed
qed

lemma accept_input_messages:
  "\<exists>c. messages (accept_input typed ss) = messages ss @ [\<lparr>role = ''user'', content = c\<rparr>]"
  by (simp add: accept_input_def append_turn_def Let_def)

lemma handle_input_accepted:
  assumes "accepted typed ss" and "handle_input env typed (ss, wd) = (r, ss', wd')"
  shows "r = None \<and> (\<exists>u a. messages ss' =
           messages ss @ [\<lparr>role = ''user'', content = u\<rparr>, \<lparr>role = ''assistant'', content = a\<rparr>]) \<or>
         r = Some Stop \<and> (\<exists>u. messages ss' = messages ss @ [\<lparr>role = ''user'', content = u\<rparr>])"
proof -
  obtain u where u: "messages (accept_input typed ss) = messages ss @ [\<lparr>role = ''user'', content = u\<rparr>]"
    using accept_input_messages by blast
  from assms have "respond env (accept_input typed ss, wd) = (r, ss', wd')"
    by (simp add: handle_input_def)
  from respond_messages[OF this] u show ?thesis by auto
qed

lemma accepted_enqueue:
  "accepted_run (typed, queued) \<Longrightarrow> accepted typed (enqueue queued ss)"
  by (auto simp: accepted_run_def accepted_def enqueue_def split: option.splits)

lemma interaction_loop_count:
  assumes "\<forall>run \<in> set runs. accepted_run run"
    and "interaction_loop env runs (ss, wd) = (sigs, ss', wd')"
  shows "length sigs = length runs \<and>
         length (messages ss') =
           length (messages ss) + length runs + length (filter (\<lambda>s. s = None) sigs)"
  using assms
proof (induction runs arbitrary: ss wd sigs)
  case Nil
  then show ?case by auto
next
  case (Cons run runs)
  obtain typed queued where run: "run = (typed, queued)" by (cases run)
  let ?ss1 = "enqueue queued ss"
  have acc: "accepted typed ?ss1"
    using Cons.prems(1) accepted_enqueue[of typed queued ss] by (simp add: run)
  obtain s ss2 wd2 where step: "handle_input env typed (?ss1, wd) = (s, ss2, wd2)"
    by (cases "handle_input env typed (?ss1, wd)") auto
  obtain rest where rest: "interaction_loop env runs (ss2, wd2) = (rest, ss', wd')"
    and sigs: "sigs = s # rest"
    using Cons.prems(2) step by (auto simp: run split: prod.splits)
  have m1: "messages ?ss1 = messages ss"
    by (simp add: enqueue_def split: option.splits)
  have one: "length (messages ss2) = length (messages ss) + 1 + (if s = None then 1 else 0)"
    using handle_input_accepted[OF acc step] m1 by auto
  have "length rest = length runs \<and> length (messages ss') =
      length (messages ss2) + length runs + length (filter (\<lambda>s. s = None) rest)"
    using Cons.IH[OF _ rest] Cons.prems(1) by simp
  with one sigs show ?case by simp
qed

lemma interaction_loop_roles:
  assumes "\<forall>run \<in> set runs. accepted_run run"
    and "interaction_loop env runs (ss, wd) = (sigs, ss', wd')"
    and "\<forall>s \<in> set sigs. s = None"
  shows "map role (messages ss') =
           map role (messages ss) @ concat (replicate (length runs) [''user'', ''assistant''])"
  using assms
proof (induction runs arbitrary: ss wd sigs)
  case Nil
  then show ?case by auto
next
  case (Cons run runs)
  obtain typed queued where run: "run = (typed, queued)" by (cases run)
  let ?ss1 = "enqueue queued ss"
  have acc: "accepted typed ?ss1"
    using Cons.prems(1) accepted_enqueue[of typed queued ss] by (simp add: run)
  obtain s ss2 wd2 where step: "handle_input env typed (?ss1, wd) = (s, ss2, wd2)"
    by (cases "handle_input env typed (?ss1, wd)") auto
  obtain rest where rest: "interaction_loop env runs (ss2, wd2) = (rest, ss', wd')"
    and sigs: "sigs = s # rest"
    using Cons.prems(2) step by (auto simp: run split: prod.splits)
  have s: "s = None" and r: "\<forall>s \<in> set rest. s = None"
    using Cons.prems(3) sigs by simp_all
  have m1: "messages ?ss1 = messages ss"
    by (simp add: enqueue_def split: option.splits)
  have roles2: "map role (messages ss2) = map role (messages ss) @ [''user'', ''assistant'']"
    using handle_input_accepted[OF acc step] m1 s by auto
  have "map role (messages ss') =
          map role (messages ss2) @ concat (replicate (length runs) [''user'', ''assistant''])"
    using Cons.IH[OF _ rest r] Cons.prems(1) by simp
  with roles2 show ?case by simp
qed

lemma try_body_result:
  "fst (try_body env ss (messages ss) wd) = read_result env (remote_result env ss wd)"
  by (simp add: try_body_def remote_result_def read_result_def split: prod.splits sum.splits)

lemma get_analyst_response_value:
  "fst (get_analyst_response env ss (messages ss) wd) =
     Inr (case read_result env (remote_result env ss wd) of
            Inl e \<Rightarrow> (JObj [], Some (error_msg e))
          | Inr r \<Rightarrow> r)"
  using try_body_result[of env ss wd]
  by (auto simp: get_analyst_response_def split: prod.splits sum.splits)

lemma answer_error_branch:
  assumes "get_analyst_response env ss (messages ss) wd = (Inr (response, Some m), wd1)"
    and "m \<noteq> []"
    and "answer env (ss, wd) = (None, ss', wd')"
  shows "ss' = append_turn ''assistant'' (JStr (''Error: '' @ m)) ss"
proof -
  obtain d ss2 wd2 where d: "drawing env 1 (ss, wd1) = (d, ss2, wd2)"
    by (cases "drawing env 1 (ss, wd1)") auto
  from drawing_frame[OF d] have f: "ss2 = ss" by simp
  from assms d f show ?thesis
    by (cases d) (simp_all add: answer_def error_text_def)
qed

lemma answer_call_failed:
  assumes "read_result env (remote_result env ss wd) = Inl e"
    and "answer env (ss, wd) = (None, ss', wd')"
  shows "ss' = append_turn ''assistant'' (JStr (''Error: '' @ error_msg e)) ss"
proof -
  obtain wd1 where "get_analyst_response env ss (messages ss) wd = (Inr (JObj [], Some (error_msg e)), wd1)"
    using get_analyst_response_value[of env ss wd] assms(1)
    by (cases "get_analyst_response env ss (messages ss) wd") auto
  from answer_error_branch[OF this error_msg_nonempty assms(2)] show ?thesis .
qed

lemma answer_no_row:
  assumes "remote_result env ss wd = Inr []"
    and "answer env (ss, wd) = (None, ss', wd')"
  shows "ss' = append_turn ''assistant'' (JStr (''Error: '' @ no_response)) ss"
proof -
  have n: "no_response \<noteq> []"
    by (simp add: no_response_def)
  obtain wd1 where "get_analyst_response env ss (messages ss) wd = (Inr (JObj [], Some no_response), wd1)"
    using get_analyst_response_value[of env ss wd] assms(1)
    by (cases "get_analyst_response env ss (messages ss) wd") (auto simp: read_result_def)
  from answer_error_branch[OF this n assms(2)] show ?thesis .
qed

lemma handle_input_answer:
  assumes "accepted typed ss"
    and "drawing env 4 (accept_input typed ss, wd) = (None, ss1, wd1)"
  shows "handle_input env typed (ss, wd) = answer env (accept_input typed ss, wd1)"
  using assms drawing_frame[OF assms(2)]
  by (simp add: handle_input_def respond_def)

section \<open>The transcript grows by two turns for each round that is not stopped\<close>

text \<open>
  C1 (what the code does). Starting from an empty transcript, after N accepted inputs the
  transcript holds N user turns and one assistant turn for every round that ran to its
  end: 2N turns, alternately user and assistant, when no round was stopped by the runtime.
  A round that runs to its end after the statement raised, after its first row could not
  be decoded, or after it returned no row, ends with an assistant turn that holds the
  error text.
\<close>

theorem transcript_length_completed:
  "((\<forall>run \<in> set runs. accepted_run run) \<and> messages ss = [] \<longrightarrow>
      (let sigs = fst (interaction_loop env runs (ss, wd));
           final = messages (fst (snd (interaction_loop env runs (ss, wd))))
       in length final = length runs + length (filter (\<lambda>s. s = None) sigs) \<and>
          ((\<forall>s \<in> set sigs. s = None) \<longrightarrow>
             length final = 2 * length runs \<and>
             map role final = concat (replicate (length runs) [''user'', ''assistant''])))) \<and>
   (accepted typed ss0 \<and> drawing env 4 (accept_input typed ss0, wd0) = (None, ss1, wd1) \<and>
    fst (handle_input env typed (ss0, wd0)) = None \<longrightarrow>
      (let final = messages (fst (snd (handle_input env typed (ss0, wd0)))) in
         (\<forall>e. read_result env (remote_result env (accept_input typed ss0) wd1) = Inl e \<longrightarrow>
            last final = \<lparr>role = ''assistant'', content = JStr (''Error: '' @ error_msg e)\<rparr>) \<and>
         (remote_result env (accept_input typed ss0) wd1 = Inr [] \<longrightarrow>
            last final = \<lparr>role = ''assistant'', content = JStr (''Error: '' @ no_response)\<rparr>)))"
proof -
  have loop: "length (messages ss') = length runs + length (filter (\<lambda>s. s = None) sigs) \<and>
      ((\<forall>s \<in> set sigs. s = None) \<longrightarrow>
         length (messages ss') = 2 * length runs \<and>
         map role (messages ss') = concat (replicate (length runs) [''user'', ''assistant'']))"
    if acc: "\<forall>run \<in> set runs. accepted_run run" and emp: "messages ss = []"
      and il: "interaction_loop env runs (ss, wd) = (sigs, ss', wd')" for sigs ss' wd'
  proof -
    have c1: "length sigs = length runs"
      using interaction_loop_count[OF acc il] by simp
    have c2: "length (messages ss') = length runs + length (filter (\<lambda>s. s = None) sigs)"
      using interaction_loop_count[OF acc il] emp by simp
    have d: "length (messages ss') = 2 * length runs \<and>
        map role (messages ss') = concat (replicate (length runs) [''user'', ''assistant''])"
      if all: "\<forall>s \<in> set sigs. s = None"
    proof -
      have "filter (\<lambda>s. s = None) sigs = sigs"
        using all by simp
      then have "length (messages ss') = 2 * length runs"
        using c1 c2 by simp
      moreover have "map role (messages ss') =
          concat (replicate (length runs) [''user'', ''assistant''])"
        using interaction_loop_roles[OF acc il all] emp by simp
      ultimately show ?thesis by simp
    qed
    from c2 d show ?thesis by blast
  qed
  have round: "(\<forall>e. read_result env (remote_result env (accept_input typed ss0) wd1) = Inl e \<longrightarrow>
        last (messages ss2) = \<lparr>role = ''assistant'', content = JStr (''Error: '' @ error_msg e)\<rparr>) \<and>
      (remote_result env (accept_input typed ss0) wd1 = Inr [] \<longrightarrow>
        last (messages ss2) = \<lparr>role = ''assistant'', content = JStr (''Error: '' @ no_response)\<rparr>)"
    if acc: "accepted typed ss0"
      and dr: "drawing env 4 (accept_input typed ss0, wd0) = (None, ss1, wd1)"
      and hi: "handle_input env typed (ss0, wd0) = (None, ss2, wd2)" for ss2 wd2
  proof -
    have a: "answer env (accept_input typed ss0, wd1) = (None, ss2, wd2)"
      using handle_input_answer[OF acc dr] hi by simp
    have x: "last (messages ss2) = \<lparr>role = ''assistant'', content = JStr (''Error: '' @ error_msg e)\<rparr>"
      if "read_result env (remote_result env (accept_input typed ss0) wd1) = Inl e" for e
      using answer_call_failed[OF that a] by (simp add: append_turn_def)
    have y: "last (messages ss2) = \<lparr>role = ''assistant'', content = JStr (''Error: '' @ no_response)\<rparr>"
      if "remote_result env (accept_input typed ss0) wd1 = Inr []"
      using answer_no_row[OF that a] by (simp add: append_turn_def)
    from x y show ?thesis by blast
  qed
  have part1: "(\<forall>run \<in> set runs. accepted_run run) \<and> messages ss = [] \<longrightarrow>
      (let sigs = fst (interaction_loop env runs (ss, wd));
           final = messages (fst (snd (interaction_loop env runs (ss, wd))))
       in length final = length runs + length (filter (\<lambda>s. s = None) sigs) \<and>
          ((\<forall>s \<in> set sigs. s = None) \<longrightarrow>
             length final = 2 * length runs \<and>
             map role final = concat (replicate (length runs) [''user'', ''assistant''])))"
  proof
    assume h: "(\<forall>run \<in> set runs. accepted_run run) \<and> messages ss = []"
    obtain sigs ss' wd' where il: "interaction_loop env runs (ss, wd) = (sigs, ss', wd')"
      by (cases "interaction_loop env runs (ss, wd)") auto
    have acc: "\<forall>run \<in> set runs. accepted_run run" and emp: "messages ss = []"
      using h by simp_all
    note l = loop[OF acc emp il]
    show "let sigs = fst (interaction_loop env runs (ss, wd));
           final = messages (fst (snd (interaction_loop env runs (ss, wd))))
       in length final = length runs + length (filter (\<lambda>s. s = None) sigs) \<and>
          ((\<forall>s \<in> set sigs. s = None) \<longrightarrow>
             length final = 2 * length runs \<and>
             map role final = concat (replicate (length runs) [''user'', ''assistant'']))"
      unfolding Let_def il fst_conv snd_conv using l .
  qed
  have part2: "accepted typed ss0 \<and> drawing env 4 (accept_input typed ss0, wd0) = (None, ss1, wd1) \<and>
    fst (handle_input env typed (ss0, wd0)) = None \<longrightarrow>
      (let final = messages (fst (snd (handle_input env typed (ss0, wd0)))) in
         (\<forall>e. read_result env (remote_result env (accept_input typed ss0) wd1) = Inl e \<longrightarrow>
            last final = \<lparr>role = ''assistant'', content = JStr (''Error: '' @ error_msg e)\<rparr>) \<and>
         (remote_result env (accept_input typed ss0) wd1 = Inr [] \<longrightarrow>
            last final = \<lparr>role = ''assistant'', content = JStr (''Error: '' @ no_response)\<rparr>))"
  proof
    assume h: "accepted typed ss0 \<and> drawing env 4 (accept_input typed ss0, wd0) = (None, ss1, wd1) \<and>
      fst (handle_input env typed (ss0, wd0)) = None"
    obtain ss2 wd2 where hi: "handle_input env typed (ss0, wd0) = (None, ss2, wd2)"
      using h by (cases "handle_input env typed (ss0, wd0)") auto
    have acc: "accepted typed ss0"
      and dr: "drawing env 4 (accept_input typed ss0, wd0) = (None, ss1, wd1)"
      using h by simp_all
    note r = round[OF acc dr hi]
    show "let final = messages (fst (snd (handle_input env typed (ss0, wd0)))) in
         (\<forall>e. read_result env (remote_result env (accept_input typed ss0) wd1) = Inl e \<longrightarrow>
            last final = \<lparr>role = ''assistant'', content = JStr (''Error: '' @ error_msg e)\<rparr>) \<and>
         (remote_result env (accept_input typed ss0) wd1 = Inr [] \<longrightarrow>
            last final = \<lparr>role = ''assistant'', content = JStr (''Error: '' @ no_response)\<rparr>)"
      unfolding Let_def hi fst_conv snd_conv using r .
  qed
  from part1 part2 show ?thesis by (rule conjI)
qed

section \<open>The concrete environments, evaluated\<close>

lemma drawing_fixed:
  "drawing (fixed_env ms res dumped loads clicked) n (ss, wd) = (None, ss, wd)"
  by (induction n) (simp_all add: drawing_def fixed_env_def)

lemma get_analyst_response_fixed:
  "get_analyst_response (fixed_env ms res dumped loads clicked) ss msgs wd =
     (Inr (case read_result (fixed_env ms res dumped loads clicked) res of
             Inl e \<Rightarrow> (JObj [], Some (error_msg e))
           | Inr r \<Rightarrow> r),
      \<lparr>analyst_queries = analyst_queries wd @ [sql_query dumped (selected_semantic_model_path ss)],
       outside = ()\<rparr>)"
  by (simp add: get_analyst_response_def try_body_def statement_def fixed_env_def
      split: sum.splits)

lemma failing_round:
  "handle_input failing_env (Some ''hi'') (init_session ''m.yaml'', world0) =
     (None,
      \<lparr>messages = [\<lparr>role = ''user'', content = JStr ''hi''\<rparr>,
                   \<lparr>role = ''assistant'',
                    content = JStr (''Error: '' @ error_msg ''Unknown function ANALYST'')\<rparr>],
       user_input = JStr [], selected_semantic_model_path = ''m.yaml''\<rparr>,
      \<lparr>analyst_queries = [sql_query hi_dumped ''m.yaml''], outside = ()\<rparr>)"
  by (simp add: handle_input_def accepted_def typed_text_def init_session_def world0_def
      accept_input_def append_turn_def respond_def answer_def drawing_fixed failing_env_def
      get_analyst_response_fixed read_result_def error_text_def error_msg_nonempty Let_def)

lemma draw_stopping: "draw (stopping_env k env) w = (w = k, Suc w)"
  by (simp add: stopping_env_def)

lemma draws_stopping:
  "draws (stopping_env k env) n w =
     (if w \<le> k \<and> k < w + n then (True, Suc k) else (False, w + n))"
proof (induction n arbitrary: w)
  case 0
  then show ?case by simp
next
  case (Suc n)
  show ?case
  proof (cases "w = k")
    case True
    then show ?thesis by (simp add: draw_stopping)
  next
    case False
    then show ?thesis by (simp add: draw_stopping Suc.IH)
  qed
qed

lemma drawing_stopping:
  "drawing (stopping_env k env) n (ss, wd) =
     (if outside wd \<le> k \<and> k < outside wd + n
      then (Some Stop, ss, wd\<lparr>outside := Suc k\<rparr>)
      else (None, ss, wd\<lparr>outside := outside wd + n\<rparr>))"
  by (simp add: drawing_def draws_stopping)

lemma get_analyst_response_stopping:
  "get_analyst_response (stopping_env k (fixed_env ms res dumped loads clicked)) ss msgs wd =
     (Inr (case read_result (fixed_env ms res dumped loads clicked) res of
             Inl e \<Rightarrow> (JObj [], Some (error_msg e))
           | Inr r \<Rightarrow> r),
      \<lparr>analyst_queries = analyst_queries wd @ [sql_query dumped (selected_semantic_model_path ss)],
       outside = outside wd\<rparr>)"
  by (simp add: get_analyst_response_def try_body_def statement_def fixed_env_def stopping_env_def
      read_result_def loads_row_def split: sum.splits list.splits option.splits)

section \<open>Examples for the transcript length\<close>

theorem transcript_length_completed_witness:
  "length (messages (fst (snd (interaction_loop failing_env [(Some ''hi'', None)]
      (init_session ''m.yaml'', world0))))) = 2 \<and>
   last (messages (fst (snd (handle_input failing_env (Some ''hi'') (init_session ''m.yaml'', world0))))) =
     \<lparr>role = ''assistant'', content = JStr (''Error: '' @ error_msg ''Unknown function ANALYST'')\<rparr>"
proof -
  have acc: "\<forall>run \<in> set [(Some ''hi'', None :: json option)]. accepted_run run"
    by (simp add: accepted_run_def typed_text_def)
  have emp: "messages (init_session ''m.yaml'') = []"
    by (simp add: init_session_def)
  have en: "enqueue None (init_session ''m.yaml'') = init_session ''m.yaml''"
    by (simp add: enqueue_def)
  have sigs: "fst (interaction_loop failing_env [(Some ''hi'', None)] (init_session ''m.yaml'', world0)) = [None]"
    by (simp add: en failing_round)
  have a: "accepted (Some ''hi'') (init_session ''m.yaml'')"
    by (simp add: accepted_def typed_text_def)
  have d: "drawing failing_env 4 (accept_input (Some ''hi'') (init_session ''m.yaml''), world0) =
      (None, accept_input (Some ''hi'') (init_session ''m.yaml''), world0)"
    by (simp add: failing_env_def drawing_fixed)
  have c: "fst (handle_input failing_env (Some ''hi'') (init_session ''m.yaml'', world0)) = None"
    by (simp add: failing_round)
  have r: "read_result failing_env
      (remote_result failing_env (accept_input (Some ''hi'') (init_session ''m.yaml'')) world0) =
      Inl ''Unknown function ANALYST''"
    by (simp add: remote_result_def statement_def read_result_def failing_env_def fixed_env_def)
  note t = transcript_length_completed [of "[(Some ''hi'', None)]" "init_session ''m.yaml''"
      failing_env world0 "Some ''hi''" "init_session ''m.yaml''" world0
      "accept_input (Some ''hi'') (init_session ''m.yaml'')" world0]
  from t acc emp sigs have "length (messages (fst (snd (interaction_loop failing_env
      [(Some ''hi'', None)] (init_session ''m.yaml'', world0))))) = 2"
    by (simp add: Let_def)
  moreover from t a d c r have "last (messages (fst (snd (handle_input failing_env (Some ''hi'')
      (init_session ''m.yaml'', world0))))) =
     \<lparr>role = ''assistant'', content = JStr (''Error: '' @ error_msg ''Unknown function ANALYST'')\<rparr>"
    by (simp add: Let_def)
  ultimately show ?thesis by simp
qed

text \<open>
  C1 as stated fails: an accepted input whose round the runtime stops while the reply is
  drawn leaves the user turn alone, one turn and not two, although the statement was sent
  and answered.
\<close>

theorem stopped_round_leaves_one_turn:
  "accepted_run (Some ''hi'', None) \<and>
   interaction_loop answered_then_stopped [(Some ''hi'', None)] (init_session ''m.yaml'', counting0) =
     ([Some Stop],
      \<lparr>messages = [\<lparr>role = ''user'', content = JStr ''hi''\<rparr>],
       user_input = JStr [], selected_semantic_model_path = ''m.yaml''\<rparr>,
      \<lparr>analyst_queries = [sql_query hi_dumped ''m.yaml''], outside = 5\<rparr>)"
proof -
  have a: "accept_input (Some ''hi'') (init_session ''m.yaml'') =
      \<lparr>messages = [\<lparr>role = ''user'', content = JStr ''hi''\<rparr>],
       user_input = JStr [], selected_semantic_model_path = ''m.yaml''\<rparr>"
    by (simp add: accept_input_def typed_text_def init_session_def append_turn_def)
  have r: "read_result (fixed_env 31000 (Inr [Some hi_reply]) hi_dumped
       (reply_table [(hi_reply, JObj [(''message'', JStr ''Total revenue was $1.2M'')])]) (\<lambda>x. False))
       (Inr [Some hi_reply]) = Inr (JObj [(''message'', JStr ''Total revenue was $1.2M'')], None)"
    by (simp add: read_result_def loads_row_def fixed_env_def reply_table_def)
  have h: "handle_input answered_then_stopped (Some ''hi'') (init_session ''m.yaml'', counting0) =
     (Some Stop,
      \<lparr>messages = [\<lparr>role = ''user'', content = JStr ''hi''\<rparr>],
       user_input = JStr [], selected_semantic_model_path = ''m.yaml''\<rparr>,
      \<lparr>analyst_queries = [sql_query hi_dumped ''m.yaml''], outside = 5\<rparr>)"
    by (simp add: handle_input_def accepted_def typed_text_def a respond_def answer_def
        answered_then_stopped_def slow_env_def drawing_stopping get_analyst_response_stopping r
        counting0_def error_text_def display_response_def show_message_def)
  show ?thesis
    by (simp add: accepted_run_def typed_text_def enqueue_def h)
qed

section \<open>get_analyst_response always returns\<close>

text \<open>
  C8. \<open>get_analyst_response\<close> returns a pair (response, error) on every input and lets no
  exception out. When \<^verbatim>\<open>json.dumps\<close> raises, when the statement raises, when it yields no
  row, or when the first row cannot be decoded, the response is the empty dict and the
  error is a non-empty text; when the first row decodes, the response is the decoded value
  and the error is \<^verbatim>\<open>None\<close>.
\<close>

theorem get_analyst_response_returns:
  "\<exists>response error wd'.
     get_analyst_response env ss msgs wd = (Inr (response, error), wd') \<and>
     (\<forall>m. error = Some m \<longrightarrow> response = JObj [] \<and> m \<noteq> []) \<and>
     (\<forall>e. json_dumps env msgs = Inl e \<longrightarrow> response = JObj [] \<and> error = Some (error_msg e)) \<and>
     (\<forall>dumped. json_dumps env msgs = Inr dumped \<longrightarrow>
        (let res = snd (fst (sql_collect env
                     (sql_query dumped (selected_semantic_model_path ss)) (outside wd)))
         in (\<forall>e. res = Inl e \<longrightarrow> response = JObj [] \<and> error = Some (error_msg e)) \<and>
            (res = Inr [] \<longrightarrow> response = JObj [] \<and> error = Some no_response) \<and>
            (\<forall>r rest e. res = Inr (r # rest) \<and> loads_row env r = Inl e \<longrightarrow>
               response = JObj [] \<and> error = Some (error_msg e)) \<and>
            (\<forall>r rest v. res = Inr (r # rest) \<and> loads_row env r = Inr v \<longrightarrow>
               response = v \<and> error = None)))"
proof (cases "json_dumps env msgs")
  case (Inl e)
  then show ?thesis
    by (simp add: get_analyst_response_def try_body_def statement_def error_msg_nonempty)
next
  case (Inr dumped)
  then show ?thesis
    by (auto simp: get_analyst_response_def try_body_def statement_def read_result_def Let_def
        no_response_def error_msg_nonempty split: prod.splits sum.splits list.splits)
qed

theorem get_analyst_response_returns_witness:
  \<open>\<exists>wd'. get_analyst_response
      (fixed_env 120 (Inr [Some ''{"message": "hi"}'']) ''[]''
         (reply_table [(''{"message": "hi"}'', JObj [(''message'', JStr ''hi'')])]) (\<lambda>x. False))
      (init_session ''m.yaml'') [] world0 = (Inr (JObj [(''message'', JStr ''hi'')], None), wd')\<close>
  using get_analyst_response_returns [of
      \<open>fixed_env 120 (Inr [Some ''{"message": "hi"}'']) ''[]''
         (reply_table [(''{"message": "hi"}'', JObj [(''message'', JStr ''hi'')])]) (\<lambda>x. False)\<close>
      "init_session ''m.yaml''" "[]" world0]
  by (auto simp: fixed_env_def reply_table_def loads_row_def Let_def)

section \<open>Typed input and queued input in one run\<close>

text \<open>
  C9. When a run brings both a typed text and a queued question, the user turn holds the
  typed text and the queue is emptied, so the queued question is never appended; in every
  case the queue is empty (falsy) once the user turn has been appended. The user turn of
  an accepted run is the one \<open>accept_input\<close> appends, before anything is drawn or sent.
\<close>

theorem typed_input_wins:
  "(\<forall>s. typed_text typed = Some s \<and> truthy (user_input ss) \<longrightarrow>
      accept_input typed ss =
        ss\<lparr>user_input := JStr [], messages := messages ss @ [\<lparr>role = ''user'', content = JStr s\<rparr>]\<rparr>) \<and>
   \<not> truthy (user_input (accept_input typed ss)) \<and>
   (accepted typed ss \<longrightarrow>
      handle_input env typed (ss, wd) = respond env (accept_input typed ss, wd))"
  by (auto simp: accept_input_def append_turn_def Let_def handle_input_def)

theorem typed_input_wins_witness:
  "accept_input (Some ''typed question'')
     \<lparr>messages = [], user_input = JStr ''What questions can I ask?'',
      selected_semantic_model_path = ''m.yaml''\<rparr> =
     \<lparr>messages = [\<lparr>role = ''user'', content = JStr ''typed question''\<rparr>], user_input = JStr [],
      selected_semantic_model_path = ''m.yaml''\<rparr>"
  using typed_input_wins [of "Some ''typed question''"
      "\<lparr>messages = [], user_input = JStr ''What questions can I ask?'',
        selected_semantic_model_path = ''m.yaml''\<rparr>"
      "fixed_env 120 (Inl ''boom'') ''[]'' (reply_table []) (\<lambda>x. False)" world0]
  by (simp add: typed_text_def)

section \<open>Clearing the chat history\<close>

text \<open>
  C6. Whatever the transcript holds, once the clear button reports a click the transcript
  is empty; the queued question and the semantic model path are not touched. (On an empty
  transcript the button is not drawn and the transcript stays empty.)
\<close>

theorem clear_empties_transcript:
  "fst (clear_button env (outside wd)) = Inr True \<Longrightarrow>
     messages (fst (snd (clear_chat env (ss, wd)))) = [] \<and>
     user_input (fst (snd (clear_chat env (ss, wd)))) = user_input ss \<and>
     selected_semantic_model_path (fst (snd (clear_chat env (ss, wd)))) =
       selected_semantic_model_path ss"
  by (auto simp: clear_chat_def split: prod.splits sum.splits bool.splits)

theorem clear_empties_transcript_witness:
  "messages (fst (snd (clear_chat
      (fixed_env 120 (Inl ''boom'') ''[]'' (reply_table []) (\<lambda>x. False))
      (\<lparr>messages = [\<lparr>role = ''user'', content = JStr ''hi''\<rparr>,
                     \<lparr>role = ''assistant'', content = JObj [(''message'', JStr ''hello'')]\<rparr>],
        user_input = JStr [], selected_semantic_model_path = ''m.yaml''\<rparr>, world0)))) = []"
proof -
  have h: "fst (clear_button (fixed_env 120 (Inl ''boom'') ''[]'' (reply_table []) (\<lambda>x. False))
             (outside world0)) = Inr True"
    by (simp add: fixed_env_def)
  show ?thesis
    using clear_empties_transcript [OF h] by simp
qed

section \<open>What a round appends\<close>

lemma sublist_error_turn: "sublist e (''Error: '' @ error_msg e)"
proof -
  have "''Error: '' @ error_msg e = (''Error: '' @ error_head) @ e @ error_tail"
    by (simp add: error_msg_def)
  then show ?thesis
    by (metis sublist_appendI)
qed

lemma sublist_unexpected_turn: "sublist e (''Unexpected error: '' @ e)"
  by (metis sublist_appendI append_Nil2)

lemma answer_display_failed:
  assumes "get_analyst_response env ss (messages ss) wd = (Inr (v, None), wd1)"
    and "display_response env v (ss, wd1) = (Some (Exc e), ss2, wd2)"
    and "answer env (ss, wd) = (None, ss', wd')"
  shows "ss' = append_turn ''assistant'' (JStr (''Unexpected error: '' @ e)) ss2"
proof -
  from assms have r: "report_unexpected env e (ss2, wd2) = (None, ss', wd')"
    by (simp add: answer_def error_text_def)
  from report_unexpected_cases[OF r] show ?thesis by simp
qed

lemma answer_ok:
  assumes "get_analyst_response env ss (messages ss) wd = (Inr (v, None), wd1)"
    and "display_response env v (ss, wd1) = (None, ss2, wd2)"
  shows "answer env (ss, wd) = (None, append_turn ''assistant'' v ss2, wd2)"
  using assms by (simp add: answer_def error_text_def)

lemma get_analyst_response_decoded:
  assumes "remote_result env ss wd = Inr (r # rest)" and "loads_row env r = Inr v"
  shows "get_analyst_response env ss (messages ss) wd =
           (Inr (v, None), snd (get_analyst_response env ss (messages ss) wd))"
  using get_analyst_response_value[of env ss wd] assms
  by (cases "get_analyst_response env ss (messages ss) wd") (simp add: read_result_def)

section \<open>The failure's own text reaches the transcript when the round is not stopped\<close>

text \<open>
  C7 (what the code does). Take an accepted round that reaches the call. If the round runs
  to its end, then whenever something raised in it (building or running the statement,
  decoding its first row, or rendering the decoded reply), the text of that exception is a
  contiguous part of the content of the assistant turn the round appends, and that content
  is a plain text. If the runtime stops the round, no assistant turn is appended and the
  transcript ends with the user turn.
\<close>

theorem error_detail_preserved:
  assumes "accepted typed ss"
    and "drawing env 4 (accept_input typed ss, wd) = (None, ss1, wd1)"
  shows
   "(let a = accept_input typed ss;
         res = remote_result env a wd1;
         wd2 = snd (get_analyst_response env a (messages a) wd1);
         final = messages (fst (snd (handle_input env typed (ss, wd))))
     in (fst (handle_input env typed (ss, wd)) = None \<longrightarrow>
           (\<forall>e. (res = Inl e \<or> (\<exists>r rest. res = Inr (r # rest) \<and> loads_row env r = Inl e)) \<longrightarrow>
              (\<exists>c. last final = \<lparr>role = ''assistant'', content = JStr c\<rparr> \<and> sublist e c)) \<and>
           (\<forall>r rest v e. res = Inr (r # rest) \<and> loads_row env r = Inr v \<and>
                 fst (display_response env v (a, wd2)) = Some (Exc e) \<longrightarrow>
              (\<exists>c. last final = \<lparr>role = ''assistant'', content = JStr c\<rparr> \<and> sublist e c))) \<and>
        (fst (handle_input env typed (ss, wd)) \<noteq> None \<longrightarrow>
           fst (handle_input env typed (ss, wd)) = Some Stop \<and> final = messages a))"
proof -
  let ?a = "accept_input typed ss"
  let ?res = "remote_result env ?a wd1"
  let ?wd2 = "snd (get_analyst_response env ?a (messages ?a) wd1)"
  obtain sg ss' wd' where hi: "handle_input env typed (ss, wd) = (sg, ss', wd')"
    by (cases "handle_input env typed (ss, wd)") auto
  have an: "answer env (?a, wd1) = (sg, ss', wd')"
    using handle_input_answer[OF assms] hi by simp
  have p1: "\<exists>c. last (messages ss') = \<lparr>role = ''assistant'', content = JStr c\<rparr> \<and> sublist e c"
    if fin: "sg = None"
      and f: "?res = Inl e \<or> (\<exists>r rest. ?res = Inr (r # rest) \<and> loads_row env r = Inl e)" for e
  proof -
    from f have "read_result env ?res = Inl e"
      by (auto simp: read_result_def)
    from answer_call_failed[OF this] an fin
    have "ss' = append_turn ''assistant'' (JStr (''Error: '' @ error_msg e)) ?a" by simp
    then show ?thesis
      using sublist_error_turn[of e] by (simp add: append_turn_def)
  qed
  have p2: "\<exists>c. last (messages ss') = \<lparr>role = ''assistant'', content = JStr c\<rparr> \<and> sublist e c"
    if fin: "sg = None" and h1: "?res = Inr (r # rest)" and h2: "loads_row env r = Inr v"
      and h3: "fst (display_response env v (?a, ?wd2)) = Some (Exc e)" for r rest v e
  proof -
    note g = get_analyst_response_decoded[OF h1 h2]
    obtain ss2 wd3 where d: "display_response env v (?a, ?wd2) = (Some (Exc e), ss2, wd3)"
      using h3 by (cases "display_response env v (?a, ?wd2)") auto
    from an fin have "answer env (?a, wd1) = (None, ss', wd')" by simp
    from answer_display_failed[OF g d this]
    show ?thesis
      using sublist_unexpected_turn[of e] by (simp add: append_turn_def)
  qed
  have p3: "sg = Some Stop \<and> messages ss' = messages ?a" if "sg \<noteq> None"
    using answer_messages[OF an] that by auto
  show ?thesis
    unfolding Let_def hi fst_conv snd_conv using p1 p2 p3 by blast
qed

theorem error_detail_preserved_witness:
  "\<exists>c. last (messages (fst (snd (handle_input failing_env (Some ''hi'')
       (init_session ''m.yaml'', world0))))) = \<lparr>role = ''assistant'', content = JStr c\<rparr> \<and>
     sublist ''Unknown function ANALYST'' c"
proof -
  have a: "accepted (Some ''hi'') (init_session ''m.yaml'')"
    by (simp add: accepted_def typed_text_def)
  have d: "drawing failing_env 4 (accept_input (Some ''hi'') (init_session ''m.yaml''), world0) =
      (None, accept_input (Some ''hi'') (init_session ''m.yaml''), world0)"
    by (simp add: failing_env_def drawing_fixed)
  have r: "remote_result failing_env (accept_input (Some ''hi'') (init_session ''m.yaml'')) world0 =
      Inl ''Unknown function ANALYST''"
    by (simp add: remote_result_def statement_def failing_env_def fixed_env_def)
  show ?thesis
    using error_detail_preserved [OF a d] r
    by (simp add: Let_def failing_round)
qed

text \<open>
  C7 as stated fails: the statement raises, the runtime stops the script in the
  \<^verbatim>\<open>st.error\<close> that would show the error, and the round ends with the user turn alone;
  the text of the exception is in no turn.
\<close>

theorem stopped_error_is_lost:
  "remote_result failed_then_stopped (accept_input (Some ''hi'') (init_session ''m.yaml''))
     \<lparr>analyst_queries = [], outside = 4\<rparr> = Inl ''Unknown function ANALYST'' \<and>
   handle_input failed_then_stopped (Some ''hi'') (init_session ''m.yaml'', counting0) =
     (Some Stop,
      \<lparr>messages = [\<lparr>role = ''user'', content = JStr ''hi''\<rparr>],
       user_input = JStr [], selected_semantic_model_path = ''m.yaml''\<rparr>,
      \<lparr>analyst_queries = [sql_query hi_dumped ''m.yaml''], outside = 5\<rparr>)"
proof -
  have a: "accept_input (Some ''hi'') (init_session ''m.yaml'') =
      \<lparr>messages = [\<lparr>role = ''user'', content = JStr ''hi''\<rparr>],
       user_input = JStr [], selected_semantic_model_path = ''m.yaml''\<rparr>"
    by (simp add: accept_input_def typed_text_def init_session_def append_turn_def)
  have r: "remote_result failed_then_stopped ss wd = Inl ''Unknown function ANALYST''" for ss wd
    by (simp add: remote_result_def statement_def failed_then_stopped_def stopping_env_def
        failing_env_def fixed_env_def)
  have h: "handle_input failed_then_stopped (Some ''hi'') (init_session ''m.yaml'', counting0) =
     (Some Stop,
      \<lparr>messages = [\<lparr>role = ''user'', content = JStr ''hi''\<rparr>],
       user_input = JStr [], selected_semantic_model_path = ''m.yaml''\<rparr>,
      \<lparr>analyst_queries = [sql_query hi_dumped ''m.yaml''], outside = 5\<rparr>)"
    by (simp add: handle_input_def accepted_def typed_text_def a respond_def answer_def
        failed_then_stopped_def failing_env_def drawing_stopping get_analyst_response_stopping
        read_result_def counting0_def error_text_def error_msg_nonempty)
  from r h show ?thesis by simp
qed

section \<open>The statements a round sends\<close>

lemma get_analyst_response_queries:
  "analyst_queries (snd (get_analyst_response env ss msgs wd)) =
     analyst_queries wd @ (case statement env ss msgs of Inl e \<Rightarrow> [] | Inr q \<Rightarrow> [q])"
  by (simp add: get_analyst_response_def try_body_def split: prod.splits sum.splits)

lemma answer_queries:
  "analyst_queries (snd (snd (answer env (ss, wd)))) =
     analyst_queries wd @ (case statement env ss (messages ss) of Inl e \<Rightarrow> [] | Inr q \<Rightarrow> [q])"
proof -
  obtain response error wd1 where g:
    "get_analyst_response env ss (messages ss) wd = (Inr (response, error), wd1)"
    using get_analyst_response_Inr[of env ss "messages ss" wd] by auto
  have q: "analyst_queries wd1 =
      analyst_queries wd @ (case statement env ss (messages ss) of Inl e \<Rightarrow> [] | Inr q \<Rightarrow> [q])"
    using get_analyst_response_queries[of env ss "messages ss" wd] g by simp
  obtain r ss' wd' where a: "answer env (ss, wd) = (r, ss', wd')"
    by (cases "answer env (ss, wd)") auto
  have "analyst_queries wd' = analyst_queries wd1"
  proof (cases "error_text error")
    case (Some m)
    obtain d ss2 wd2 where d: "drawing env 1 (ss, wd1) = (d, ss2, wd2)"
      by (cases "drawing env 1 (ss, wd1)") auto
    from drawing_frame[OF d] a g Some d show ?thesis
      by (cases d) (auto simp: answer_def)
  next
    case None
    obtain d ss2 wd2 where d: "display_response env response (ss, wd1) = (d, ss2, wd2)"
      by (cases "display_response env response (ss, wd1)") auto
    from display_response_frame[OF d] have f: "analyst_queries wd2 = analyst_queries wd1" by simp
    show ?thesis
    proof (cases d)
      case None
      with a g \<open>error_text error = None\<close> d f show ?thesis by (simp add: answer_def)
    next
      case (Some s)
      show ?thesis
      proof (cases s)
        case (Exc e)
        with a g \<open>error_text error = None\<close> d Some
        have "report_unexpected env e (ss2, wd2) = (r, ss', wd')" by (simp add: answer_def)
        from report_unexpected_cases[OF this] f show ?thesis by simp
      next
        case Stop
        with a g \<open>error_text error = None\<close> d Some f show ?thesis by (simp add: answer_def)
      qed
    qed
  qed
  with q a show ?thesis by simp
qed

lemma handle_input_queries_le:
  "length (analyst_queries (snd (snd (handle_input env typed (ss, wd))))) \<le>
     length (analyst_queries wd) + 1"
proof (cases "accepted typed ss")
  case False
  then show ?thesis by (simp add: handle_input_def)
next
  case True
  obtain d ss1 wd1 where d: "drawing env 4 (accept_input typed ss, wd) = (d, ss1, wd1)"
    by (cases "drawing env 4 (accept_input typed ss, wd)") auto
  from drawing_frame[OF d] have f: "ss1 = accept_input typed ss"
    "analyst_queries wd1 = analyst_queries wd" by simp_all
  show ?thesis
  proof (cases d)
    case None
    then have "handle_input env typed (ss, wd) = answer env (accept_input typed ss, wd1)"
      using handle_input_answer[OF True] d f by simp
    then show ?thesis
      using answer_queries[of env "accept_input typed ss" wd1] f
      by (simp split: sum.splits)
  next
    case (Some s)
    with True d f show ?thesis
      by (simp add: handle_input_def respond_def)
  qed
qed






section \<open>The duration of the call\<close>

lemma delayed_fields [simp]:
  "json_dumps (delayed t env) = json_dumps env"
  "json_loads (delayed t env) = json_loads env"
  "draw (delayed t env) = draw env"
  "execute_button (delayed t env) = execute_button env"
  "execute_query (delayed t env) = execute_query env"
  "suggestion_button (delayed t env) = suggestion_button env"
  "clear_button (delayed t env) = clear_button env"
  by (simp_all add: delayed_def)

lemma draws_delayed: "draws (delayed t env) n w = draws env n w"
  by (induction n arbitrary: w) (simp_all cong: sum.case_cong option.case_cong prod.case_cong bool.case_cong list.case_cong signal.case_cong)

lemma drawing_delayed: "drawing (delayed t env) n st = drawing env n st"
  by (simp add: drawing_def draws_delayed)

lemma button_call_delayed: "button_call (delayed t env) button st = button_call env button st"
  by (simp add: button_call_def cong: sum.case_cong option.case_cong prod.case_cong bool.case_cong list.case_cong signal.case_cong)

lemma suggestion_buttons_delayed:
  "suggestion_buttons (delayed t env) xs st = suggestion_buttons env xs st"
  by (induction xs arbitrary: st) (simp_all add: button_call_delayed cong: sum.case_cong option.case_cong prod.case_cong bool.case_cong list.case_cong signal.case_cong)

lemma show_message_delayed:
  "show_message (delayed t env) response st = show_message env response st"
  by (simp add: show_message_def drawing_delayed cong: sum.case_cong option.case_cong prod.case_cong bool.case_cong list.case_cong signal.case_cong)

lemma show_sql_delayed:
  "show_sql (delayed t env) response st = show_sql env response st"
  by (simp add: show_sql_def drawing_delayed button_call_delayed cong: sum.case_cong option.case_cong prod.case_cong bool.case_cong list.case_cong signal.case_cong)

lemma show_suggestions_delayed:
  "show_suggestions (delayed t env) response st = show_suggestions env response st"
  by (simp add: show_suggestions_def drawing_delayed suggestion_buttons_delayed cong: sum.case_cong option.case_cong prod.case_cong bool.case_cong list.case_cong signal.case_cong)

lemma display_response_delayed:
  "display_response (delayed t env) response st = display_response env response st"
  by (simp add: display_response_def show_message_delayed show_sql_delayed show_suggestions_delayed cong: sum.case_cong option.case_cong prod.case_cong bool.case_cong list.case_cong signal.case_cong)

lemma loads_row_delayed:
  "loads_row (delayed t env) r = loads_row env r"
  by (simp add: loads_row_def split: option.splits)

lemma read_result_delayed:
  "read_result (delayed t env) res = read_result env res"
  by (simp add: read_result_def loads_row_delayed split: sum.splits list.splits)

lemma sql_collect_delayed:
  "sql_collect (delayed t env) q w =
     (case sql_collect env q w of ((elapsed, res), w') \<Rightarrow> ((t, res), w'))"
  by (simp add: delayed_def)

lemma statement_delayed:
  "statement (delayed t env) ss msgs = statement env ss msgs"
  by (simp add: statement_def)

lemma try_body_delayed:
  "try_body (delayed t env) ss msgs wd = try_body env ss msgs wd"
  by (simp add: try_body_def statement_delayed read_result_delayed sql_collect_delayed
      split: prod.splits sum.splits)

lemma get_analyst_response_delayed:
  "get_analyst_response (delayed t env) ss msgs wd = get_analyst_response env ss msgs wd"
  by (simp add: get_analyst_response_def try_body_delayed)

lemma report_unexpected_delayed:
  "report_unexpected (delayed t env) e st = report_unexpected env e st"
  by (simp add: report_unexpected_def drawing_delayed cong: sum.case_cong option.case_cong prod.case_cong bool.case_cong list.case_cong signal.case_cong)

lemma answer_delayed:
  "answer (delayed t env) st = answer env st"
  by (simp add: answer_def get_analyst_response_delayed display_response_delayed
      drawing_delayed report_unexpected_delayed cong: sum.case_cong option.case_cong prod.case_cong bool.case_cong list.case_cong signal.case_cong)

lemma respond_delayed:
  "respond (delayed t env) st = respond env st"
  by (simp add: respond_def drawing_delayed answer_delayed cong: sum.case_cong option.case_cong prod.case_cong bool.case_cong list.case_cong signal.case_cong)

text \<open>
  C3 (what the code does). \<open>API_TIMEOUT\<close> is declared and never used: a round does the
  same whatever time the statement takes. A round sends at most one statement and nothing
  is sent again: exactly one when the round reaches the call and \<^verbatim>\<open>json.dumps\<close> returns,
  none when \<^verbatim>\<open>json.dumps\<close> raises. When the statement raises, as it does when the service
  gives up on it, and the round runs to its end, the assistant turn is the error text built
  from that exception.
\<close>

theorem duration_is_not_read:
  "handle_input (delayed t env) typed (ss, wd) = handle_input env typed (ss, wd) \<and>
   length (analyst_queries (snd (snd (handle_input env typed (ss, wd))))) \<le>
     length (analyst_queries wd) + 1 \<and>
   (accepted typed ss \<and> drawing env 4 (accept_input typed ss, wd) = (None, ss1, wd1) \<longrightarrow>
      analyst_queries (snd (snd (handle_input env typed (ss, wd)))) =
        analyst_queries wd @
          (case statement env (accept_input typed ss) (messages (accept_input typed ss)) of
             Inl e \<Rightarrow> []
           | Inr q \<Rightarrow> [q]) \<and>
      (\<forall>e. fst (handle_input env typed (ss, wd)) = None \<and>
            remote_result env (accept_input typed ss) wd1 = Inl e \<longrightarrow>
         last (messages (fst (snd (handle_input env typed (ss, wd))))) =
           \<lparr>role = ''assistant'', content = JStr (''Error: '' @ error_msg e)\<rparr>))"
proof -
  have a: "handle_input (delayed t env) typed (ss, wd) = handle_input env typed (ss, wd)"
    by (simp add: handle_input_def respond_delayed)
  note b = handle_input_queries_le[of env typed ss wd]
  have c: "analyst_queries (snd (snd (handle_input env typed (ss, wd)))) =
        analyst_queries wd @
          (case statement env (accept_input typed ss) (messages (accept_input typed ss)) of
             Inl e \<Rightarrow> []
           | Inr q \<Rightarrow> [q]) \<and>
      (\<forall>e. fst (handle_input env typed (ss, wd)) = None \<and>
            remote_result env (accept_input typed ss) wd1 = Inl e \<longrightarrow>
         last (messages (fst (snd (handle_input env typed (ss, wd))))) =
           \<lparr>role = ''assistant'', content = JStr (''Error: '' @ error_msg e)\<rparr>)"
    if acc: "accepted typed ss"
      and dr: "drawing env 4 (accept_input typed ss, wd) = (None, ss1, wd1)"
  proof -
    let ?a = "accept_input typed ss"
    have h: "handle_input env typed (ss, wd) = answer env (?a, wd1)"
      using handle_input_answer[OF acc dr] .
    have w: "analyst_queries wd1 = analyst_queries wd"
      using drawing_frame[OF dr] by simp
    have q: "analyst_queries (snd (snd (handle_input env typed (ss, wd)))) =
        analyst_queries wd @ (case statement env ?a (messages ?a) of Inl e \<Rightarrow> [] | Inr q \<Rightarrow> [q])"
      using answer_queries[of env ?a wd1] h w by simp
    have l: "last (messages (fst (snd (handle_input env typed (ss, wd))))) =
           \<lparr>role = ''assistant'', content = JStr (''Error: '' @ error_msg e)\<rparr>"
      if fin: "fst (handle_input env typed (ss, wd)) = None"
        and res: "remote_result env ?a wd1 = Inl e" for e
    proof -
      obtain ss' wd' where an: "answer env (?a, wd1) = (None, ss', wd')"
        using fin h by (cases "answer env (?a, wd1)") auto
      have "read_result env (remote_result env ?a wd1) = Inl e"
        using res by (simp add: read_result_def)
      from answer_call_failed[OF this an] h an show ?thesis
        by (simp add: append_turn_def)
    qed
    from q l show ?thesis by blast
  qed
  from a b c show ?thesis by blast
qed

theorem duration_is_not_read_witness:
  "handle_input (delayed 5 failing_env) (Some ''hi'') (init_session ''m.yaml'', world0) =
     handle_input failing_env (Some ''hi'') (init_session ''m.yaml'', world0) \<and>
   analyst_queries (snd (snd (handle_input failing_env (Some ''hi'') (init_session ''m.yaml'', world0)))) =
     [sql_query hi_dumped ''m.yaml''] \<and>
   last (messages (fst (snd (handle_input failing_env (Some ''hi'') (init_session ''m.yaml'', world0))))) =
     \<lparr>role = ''assistant'', content = JStr (''Error: '' @ error_msg ''Unknown function ANALYST'')\<rparr>"
proof -
  have a: "accepted (Some ''hi'') (init_session ''m.yaml'')"
    by (simp add: accepted_def typed_text_def)
  have d: "drawing failing_env 4 (accept_input (Some ''hi'') (init_session ''m.yaml''), world0) =
      (None, accept_input (Some ''hi'') (init_session ''m.yaml''), world0)"
    by (simp add: failing_env_def drawing_fixed)
  have r: "remote_result failing_env (accept_input (Some ''hi'') (init_session ''m.yaml'')) world0 =
      Inl ''Unknown function ANALYST''"
    by (simp add: remote_result_def statement_def failing_env_def fixed_env_def)
  have c: "fst (handle_input failing_env (Some ''hi'') (init_session ''m.yaml'', world0)) = None"
    by (simp add: failing_round)
  note t = duration_is_not_read [of 5 failing_env "Some ''hi''" "init_session ''m.yaml''" world0
      "accept_input (Some ''hi'') (init_session ''m.yaml'')" world0]
  from t a d r c show ?thesis
    by (simp add: failing_round)
qed

text \<open>
  C3 as stated fails: a statement that takes 31 seconds and then returns a reply gives a
  round that stores the reply, not a timeout error.
\<close>

theorem slow_call_is_not_a_timeout:
  "API_TIMEOUT < fst (fst (sql_collect slow_env (sql_query hi_dumped ''m.yaml'') ())) \<and>
   handle_input slow_env (Some ''hi'') (init_session ''m.yaml'', world0) =
   (None,
    \<lparr>messages = [\<lparr>role = ''user'', content = JStr ''hi''\<rparr>,
                 \<lparr>role = ''assistant'',
                  content = JObj [(''message'', JStr ''Total revenue was $1.2M'')]\<rparr>],
     user_input = JStr [], selected_semantic_model_path = ''m.yaml''\<rparr>,
    \<lparr>analyst_queries = [sql_query hi_dumped ''m.yaml''], outside = ()\<rparr>)"
proof -
  have t: "API_TIMEOUT < fst (fst (sql_collect slow_env (sql_query hi_dumped ''m.yaml'') ()))"
    by (simp add: API_TIMEOUT_def slow_env_def fixed_env_def)
  have r: "read_result (fixed_env 31000 (Inr [Some hi_reply]) hi_dumped
       (reply_table [(hi_reply, JObj [(''message'', JStr ''Total revenue was $1.2M'')])]) (\<lambda>x. False))
       (Inr [Some hi_reply]) = Inr (JObj [(''message'', JStr ''Total revenue was $1.2M'')], None)"
    by (simp add: read_result_def loads_row_def fixed_env_def reply_table_def)
  have h: "handle_input slow_env (Some ''hi'') (init_session ''m.yaml'', world0) =
   (None,
    \<lparr>messages = [\<lparr>role = ''user'', content = JStr ''hi''\<rparr>,
                 \<lparr>role = ''assistant'',
                  content = JObj [(''message'', JStr ''Total revenue was $1.2M'')]\<rparr>],
     user_input = JStr [], selected_semantic_model_path = ''m.yaml''\<rparr>,
    \<lparr>analyst_queries = [sql_query hi_dumped ''m.yaml''], outside = ()\<rparr>)"
    by (simp add: handle_input_def accepted_def typed_text_def init_session_def world0_def
        accept_input_def append_turn_def respond_def answer_def drawing_fixed slow_env_def
        get_analyst_response_fixed r error_text_def display_response_def show_message_def
        show_sql_def show_suggestions_def present_and_truthy_def Let_def)
  from t h show ?thesis by simp
qed

section \<open>A reply with no field\<close>

lemma py_in_dict: "py_in k (JObj kvs) = Inr (map_of kvs k \<noteq> None)"
  by (simp add: map_of_eq_None_iff image_iff)

lemma present_and_truthy_empty:
  "field_empty k kvs \<Longrightarrow> present_and_truthy k (JObj kvs) = Inr False"
  by (cases "map_of kvs k")
    (simp_all add: present_and_truthy_def field_empty_def py_in_dict del: py_in.simps)

lemma show_message_dict:
  "show_message env (JObj kvs) st =
     (if map_of kvs ''message'' = None then (None, st) else drawing env 1 st)"
  by (cases "map_of kvs ''message''")
    (simp_all add: show_message_def py_in_dict del: py_in.simps)

lemma display_response_empty:
  assumes "field_empty ''sql'' kvs" and "field_empty ''suggestions'' kvs"
  shows "display_response env (JObj kvs) st =
     (if map_of kvs ''message'' = None then (None, st) else drawing env 1 st)"
proof (cases "map_of kvs ''message'' = None")
  case True
  with assms show ?thesis
    by (simp add: display_response_def show_message_dict show_sql_def show_suggestions_def
        present_and_truthy_empty)
next
  case False
  obtain d ss1 wd1 where d: "drawing env 1 st = (d, ss1, wd1)"
    by (cases "drawing env 1 st") auto
  have "d = None \<or> d = Some Stop"
    using drawing_frame[of env 1 "fst st" "snd st" d ss1 wd1] d by simp
  with False assms d show ?thesis
    by (auto simp: display_response_def show_message_dict show_sql_def show_suggestions_def
        present_and_truthy_empty)
qed

lemma answer_stopped:
  assumes "get_analyst_response env ss (messages ss) wd = (Inr (v, None), wd1)"
    and "display_response env v (ss, wd1) = (Some Stop, ss2, wd2)"
  shows "answer env (ss, wd) = (Some Stop, ss2, wd2)"
  using assms by (simp add: answer_def error_text_def)

text \<open>
  C4 (what the code does). A reply that decodes to a dict whose message, sql and
  suggestions are all absent or empty is a success: \<open>get_analyst_response\<close> returns it with
  error \<^verbatim>\<open>None\<close>, rendering it raises nothing, and the round that runs to its end appends it
  as the assistant turn. The round can only fail to do so by being stopped, while an empty
  message that is present is written; with no message key it always runs to its end. The
  text "No response received from Cortex Analyst" is for a statement that returns no row.
\<close>

theorem empty_reply_is_stored:
  assumes "accepted typed ss"
    and "drawing env 4 (accept_input typed ss, wd) = (None, ss1, wd1)"
    and "remote_result env (accept_input typed ss) wd1 = Inr (r # rest)"
    and "loads_row env r = Inr (JObj kvs)"
    and "field_empty ''message'' kvs" and "field_empty ''sql'' kvs"
    and "field_empty ''suggestions'' kvs"
  shows "fst (get_analyst_response env (accept_input typed ss) (messages (accept_input typed ss)) wd1) =
           Inr (JObj kvs, None) \<and>
         (fst (handle_input env typed (ss, wd)) = None \<longrightarrow>
            messages (fst (snd (handle_input env typed (ss, wd)))) =
              messages (accept_input typed ss) @ [\<lparr>role = ''assistant'', content = JObj kvs\<rparr>]) \<and>
         (fst (handle_input env typed (ss, wd)) \<noteq> None \<longrightarrow>
            fst (handle_input env typed (ss, wd)) = Some Stop \<and>
            messages (fst (snd (handle_input env typed (ss, wd)))) = messages (accept_input typed ss)) \<and>
         (map_of kvs ''message'' = None \<longrightarrow> fst (handle_input env typed (ss, wd)) = None)"
proof -
  let ?a = "accept_input typed ss"
  let ?wd2 = "snd (get_analyst_response env ?a (messages ?a) wd1)"
  note g = get_analyst_response_decoded[OF assms(3,4)]
  have g1: "fst (get_analyst_response env ?a (messages ?a) wd1) = Inr (JObj kvs, None)"
    using g by (metis fst_conv)
  have h: "handle_input env typed (ss, wd) = answer env (?a, wd1)"
    using handle_input_answer[OF assms(1,2)] .
  note dr = display_response_empty[OF assms(6,7), of env "(?a, ?wd2)"]
  obtain sg ss' wd' where an: "answer env (?a, wd1) = (sg, ss', wd')"
    by (cases "answer env (?a, wd1)") auto
  have p1: "messages ss' = messages ?a @ [\<lparr>role = ''assistant'', content = JObj kvs\<rparr>]"
    if "sg = None"
  proof -
    obtain d ss2 wd3 where d: "display_response env (JObj kvs) (?a, ?wd2) = (d, ss2, wd3)"
      by (cases "display_response env (JObj kvs) (?a, ?wd2)") auto
    have s2: "ss2 = ?a"
      using d dr drawing_frame[of env 1 ?a ?wd2 d ss2 wd3] by (auto split: if_splits)
    have dn: "d = None \<or> d = Some Stop"
      using d dr drawing_frame[of env 1 ?a ?wd2 d ss2 wd3] by (auto split: if_splits)
    show ?thesis
    proof (cases d)
      case None
      from answer_ok[OF g] d None an s2 show ?thesis
        by (simp add: append_turn_def)
    next
      case (Some s)
      with dn have "d = Some Stop" by simp
      with d have "display_response env (JObj kvs) (?a, ?wd2) = (Some Stop, ss2, wd3)" by simp
      from answer_stopped[OF g this] an that show ?thesis by simp
    qed
  qed
  have p2: "sg = Some Stop \<and> messages ss' = messages ?a" if "sg \<noteq> None"
    using answer_messages[OF an] that by auto
  have p3: "sg = None" if "map_of kvs ''message'' = None"
  proof -
    have "display_response env (JObj kvs) (?a, ?wd2) = (None, ?a, ?wd2)"
      using dr that by simp
    from answer_ok[OF g this] an show ?thesis by simp
  qed
  show ?thesis
    unfolding h an fst_conv snd_conv using g1 p1 p2 p3 by blast
qed

theorem empty_reply_is_stored_witness:
  "messages (fst (snd (handle_input empty_reply_env (Some ''hi'') (init_session ''m.yaml'', world0)))) =
     [\<lparr>role = ''user'', content = JStr ''hi''\<rparr>, \<lparr>role = ''assistant'', content = JObj []\<rparr>]"
proof -
  have a: "accepted (Some ''hi'') (init_session ''m.yaml'')"
    by (simp add: accepted_def typed_text_def)
  have b: "drawing empty_reply_env 4 (accept_input (Some ''hi'') (init_session ''m.yaml''), world0) =
      (None, accept_input (Some ''hi'') (init_session ''m.yaml''), world0)"
    by (simp add: empty_reply_env_def drawing_fixed)
  have c: "remote_result empty_reply_env (accept_input (Some ''hi'') (init_session ''m.yaml'')) world0 =
      Inr [Some ''{}'']"
    by (simp add: remote_result_def statement_def empty_reply_env_def fixed_env_def)
  have d: "loads_row empty_reply_env (Some ''{}'') = Inr (JObj [])"
    by (simp add: loads_row_def empty_reply_env_def fixed_env_def reply_table_def)
  have e: "field_empty k []" for k
    by (simp add: field_empty_def)
  show ?thesis
    using empty_reply_is_stored [OF a b c d e e e]
    by (simp add: accept_input_def append_turn_def typed_text_def init_session_def)
qed

text \<open>
  C4 as stated fails: for the reply \<^verbatim>\<open>{}\<close> the function returns the empty dict with no
  error, and the transcript stores the empty dict as a successful assistant turn.
\<close>

theorem empty_reply_is_not_an_error:
  "get_analyst_response empty_reply_env (init_session ''m.yaml'')
      [\<lparr>role = ''user'', content = JStr ''hi''\<rparr>] world0 =
     (Inr (JObj [], None), \<lparr>analyst_queries = [sql_query hi_dumped ''m.yaml''], outside = ()\<rparr>) \<and>
   messages (fst (snd (handle_input empty_reply_env (Some ''hi'') (init_session ''m.yaml'', world0)))) =
     [\<lparr>role = ''user'', content = JStr ''hi''\<rparr>, \<lparr>role = ''assistant'', content = JObj []\<rparr>]"
proof -
  have r: "read_result (fixed_env 120 (Inr [Some ''{}'']) hi_dumped (reply_table [(''{}'', JObj [])])
       (\<lambda>x. False)) (Inr [Some ''{}'']) = Inr (JObj [], None)"
    by (simp add: read_result_def loads_row_def fixed_env_def reply_table_def)
  have g: "get_analyst_response empty_reply_env (init_session ''m.yaml'')
      [\<lparr>role = ''user'', content = JStr ''hi''\<rparr>] world0 =
     (Inr (JObj [], None), \<lparr>analyst_queries = [sql_query hi_dumped ''m.yaml''], outside = ()\<rparr>)"
    by (simp add: empty_reply_env_def get_analyst_response_fixed r init_session_def world0_def)
  have h: "messages (fst (snd (handle_input empty_reply_env (Some ''hi'') (init_session ''m.yaml'', world0)))) =
     [\<lparr>role = ''user'', content = JStr ''hi''\<rparr>, \<lparr>role = ''assistant'', content = JObj []\<rparr>]"
    by (simp add: handle_input_def accepted_def typed_text_def init_session_def world0_def
        accept_input_def append_turn_def respond_def answer_def drawing_fixed empty_reply_env_def
        get_analyst_response_fixed r error_text_def display_response_def show_message_def
        show_sql_def show_suggestions_def present_and_truthy_def Let_def)
  from g h show ?thesis by simp
qed

section \<open>Selecting a suggestion\<close>

lemma button_call_click:
  assumes "\<forall>y w. fst (suggestion_button env y w) = Inr (y = x)"
    and "button_call env (suggestion_button env y) (ss, wd) = (r, ss1, wd1)"
  shows "ss1 = ss \<and> (r = Inl Stop \<or> r = Inr (y = x))"
proof -
  obtain w' where b: "suggestion_button env y (outside wd) = (Inr (y = x), w')"
    using assms(1) by (metis prod.collapse)
  with assms(2) show ?thesis
    by (auto simp: button_call_def split: prod.splits bool.splits)
qed

lemma suggestion_buttons_click:
  assumes "\<forall>y w. fst (suggestion_button env y w) = Inr (y = x)"
    and "suggestion_buttons env xs (ss, wd) = (None, ss', wd')"
  shows "ss' = (if x \<in> set xs then ss\<lparr>user_input := x\<rparr> else ss)"
  using assms(2)
proof (induction xs arbitrary: ss wd)
  case Nil
  then show ?case by simp
next
  case (Cons y ys)
  obtain r ss1 wd1 where bc: "button_call env (suggestion_button env y) (ss, wd) = (r, ss1, wd1)"
    by (cases "button_call env (suggestion_button env y) (ss, wd)") auto
  from button_call_click[OF assms(1) bc] have s1: "ss1 = ss"
    and r: "r = Inl Stop \<or> r = Inr (y = x)" by simp_all
  from Cons.prems bc have "r \<noteq> Inl Stop"
    by auto
  with r have r': "r = Inr (y = x)" by simp
  show ?case
  proof (cases "y = x")
    case True
    with Cons.prems bc r' s1
    have "suggestion_buttons env ys (ss\<lparr>user_input := x\<rparr>, wd1) = (None, ss', wd')"
      by simp
    from Cons.IH[OF this] True show ?thesis by simp
  next
    case False
    with Cons.prems bc r' s1
    have "suggestion_buttons env ys (ss, wd1) = (None, ss', wd')"
      by simp
    from Cons.IH[OF this] False show ?thesis by simp
  qed
qed

lemma show_suggestions_click:
  assumes "\<forall>y w. fst (suggestion_button env y w) = Inr (y = x)"
    and "show_suggestions env response (ss, wd) = (None, ss', wd')"
  shows "ss' = (if x \<in> set (drawn_suggestions response) then ss\<lparr>user_input := x\<rparr> else ss)"
proof (cases "\<exists>v xs. present_and_truthy ''suggestions'' response = Inr True \<and>
     py_getitem ''suggestions'' response = Inr v \<and> py_iter v = Inr xs")
  case True
  then obtain v xs where p: "present_and_truthy ''suggestions'' response = Inr True"
    and g: "py_getitem ''suggestions'' response = Inr v" and i: "py_iter v = Inr xs"
    by blast
  then have d: "drawn_suggestions response = xs"
    by (simp add: drawn_suggestions_def)
  obtain dr ss1 wd1 where dw: "drawing env 1 (ss, wd) = (dr, ss1, wd1)"
    by (cases "drawing env 1 (ss, wd)") auto
  from drawing_frame[OF dw] have s1: "ss1 = ss" by simp
  from assms(2) p g i dw s1 have "suggestion_buttons env xs (ss, wd1) = (None, ss', wd')"
    by (cases dr) (simp_all add: show_suggestions_def)
  from suggestion_buttons_click[OF assms(1) this] d show ?thesis by simp
next
  case False
  then have d: "drawn_suggestions response = []"
    by (auto simp: drawn_suggestions_def split: sum.splits bool.splits)
  obtain dr ss1 wd1 where dw: "drawing env 1 (ss, wd) = (dr, ss1, wd1)"
    by (cases "drawing env 1 (ss, wd)") auto
  from drawing_frame[OF dw] have s1: "ss1 = ss" by simp
  from False assms(2) dw s1 have "ss' = ss"
    by (cases dr) (auto simp: show_suggestions_def split: sum.splits bool.splits)
  with d show ?thesis by simp
qed

lemma display_response_click:
  assumes "\<forall>y w. fst (suggestion_button env y w) = Inr (y = x)"
    and "display_response env response (ss, wd) = (None, ss', wd')"
  shows "ss' = (if x \<in> set (drawn_suggestions response) then ss\<lparr>user_input := x\<rparr> else ss)"
proof -
  from assms(2) obtain ss0 wd0 ss1 wd1 where
    m: "show_message env response (ss, wd) = (None, ss0, wd0)" and
    a: "show_sql env response (ss0, wd0) = (None, ss1, wd1)" and
    b: "show_suggestions env response (ss1, wd1) = (None, ss', wd')"
    by (auto simp: display_response_def split: option.splits prod.splits)
  from show_message_frame[OF m] show_sql_frame[OF a] have "ss1 = ss" by simp
  with show_suggestions_click[OF assms(1) b] show ?thesis by simp
qed

lemma display_history_click:
  assumes "\<forall>y w. fst (suggestion_button env y w) = Inr (y = x)"
    and "display_history env ms (ss, wd) = (None, ss', wd')"
  shows "ss' = (if x \<in> set (concat (map offered ms)) then ss\<lparr>user_input := x\<rparr> else ss)"
  using assms(2)
proof (induction ms arbitrary: ss wd)
  case Nil
  then show ?case by simp
next
  case (Cons m ms)
  show ?case
  proof (cases "role m \<noteq> ''user'' \<and> (\<exists>kvs. content m = JObj kvs)")
    case False
    then have o: "offered m = []"
      by (auto simp: offered_def split: json.splits)
    obtain dr ss1 wd1 where dw: "drawing env 2 (ss, wd) = (dr, ss1, wd1)"
      by (cases "drawing env 2 (ss, wd)") auto
    from drawing_frame[OF dw] have s1: "ss1 = ss" by simp
    from False Cons.prems dw s1 have "display_history env ms (ss, wd1) = (None, ss', wd')"
      by (cases dr) (auto split: json.splits)
    from Cons.IH[OF this] o show ?thesis by simp
  next
    case True
    then obtain kvs where k: "content m = JObj kvs" and u: "role m \<noteq> ''user''" by blast
    then have o: "offered m = drawn_suggestions (JObj kvs)"
      by (simp add: offered_def)
    obtain dr ss1 wd1 where dw: "drawing env 1 (ss, wd) = (dr, ss1, wd1)"
      by (cases "drawing env 1 (ss, wd)") auto
    from drawing_frame[OF dw] have s1: "ss1 = ss" by simp
    from Cons.prems k u dw s1 obtain ss2 wd2 where
      a: "display_response env (JObj kvs) (ss, wd1) = (None, ss2, wd2)" and
      b: "display_history env ms (ss2, wd2) = (None, ss', wd')"
      by (cases dr) (auto split: option.splits prod.splits)
    note a' = display_response_click[OF assms(1) a]
    note b' = Cons.IH[OF b]
    show ?thesis
      using a' b' o by auto
  qed
qed

lemma button_call_fixed:
  "button_call (fixed_env ms res dumped loads clicked)
     (suggestion_button (fixed_env ms res dumped loads clicked) y) (ss, wd) =
     (Inr (clicked y), ss, wd)"
  by (simp add: button_call_def fixed_env_def)

lemma display_history_offering:
  "display_history (click_env s) (messages (offering s)) (offering s, world0) =
     (None, (offering s)\<lparr>user_input := JStr s\<rparr>, world0)"
  by (simp add: offering_def click_env_def drawing_fixed button_call_fixed display_response_def
      show_message_def show_sql_def show_suggestions_def present_and_truthy_def)

lemma offered_offering: "concat (map offered (messages (offering s))) = [JStr s]"
  by (simp add: offering_def offered_def drawn_suggestions_def present_and_truthy_def)

text \<open>
  C5 (what the code does). Take a run in which the buttons reported as clicked are those of
  the text \<open>s\<close>, some stored assistant turn offers \<open>s\<close>, the chat history is drawn to its
  end and nothing is typed. If \<open>s\<close> is not empty, the run appends a user turn whose
  content is exactly \<open>s\<close>; the assistant turn of that round follows it unless the runtime
  stops the round.
\<close>

theorem selected_suggestion_becomes_user_turn:
  assumes "\<forall>y w. fst (suggestion_button env y w) = Inr (y = JStr s)"
    and "JStr s \<in> set (concat (map offered (messages ss)))"
    and "fst (display_history env (messages ss) (ss, wd)) = None"
    and "typed_text typed = None"
    and "s \<noteq> []"
  shows "\<exists>sg st'. chat_section env typed (ss, wd) = (sg, st') \<and>
           (sg = None \<and> (\<exists>a. messages (fst st') =
               messages ss @ [\<lparr>role = ''user'', content = JStr s\<rparr>, \<lparr>role = ''assistant'', content = a\<rparr>]) \<or>
            sg = Some Stop \<and>
              messages (fst st') = messages ss @ [\<lparr>role = ''user'', content = JStr s\<rparr>])"
proof -
  obtain ss1 wd1 where h: "display_history env (messages ss) (ss, wd) = (None, ss1, wd1)"
    using assms(3) by (cases "display_history env (messages ss) (ss, wd)") auto
  have ss1: "ss1 = ss\<lparr>user_input := JStr s\<rparr>"
    using display_history_click[OF assms(1) h] assms(2) by simp
  have acc: "accepted typed ss1"
    using assms(5) by (simp add: accepted_def ss1)
  have u: "messages (accept_input typed ss1) = messages ss @ [\<lparr>role = ''user'', content = JStr s\<rparr>]"
    using assms(4,5) by (simp add: accept_input_def append_turn_def ss1)
  obtain sg ss2 wd2 where r: "respond env (accept_input typed ss1, wd1) = (sg, ss2, wd2)"
    by (cases "respond env (accept_input typed ss1, wd1)") auto
  have c: "chat_section env typed (ss, wd) = (sg, ss2, wd2)"
    using h acc r by (simp add: chat_section_def handle_input_def)
  from respond_messages[OF r] u c show ?thesis by auto
qed

theorem selected_suggestion_becomes_user_turn_witness:
  "\<exists>a st'. chat_section (click_env trends) None (offering trends, world0) = (None, st') \<and>
     messages (fst st') =
       messages (offering trends) @
         [\<lparr>role = ''user'', content = JStr trends\<rparr>, \<lparr>role = ''assistant'', content = a\<rparr>]"
proof -
  have a: "\<forall>y w. fst (suggestion_button (click_env trends) y w) = Inr (y = JStr trends)"
    by (simp add: click_env_def fixed_env_def)
  have b: "JStr trends \<in> set (concat (map offered (messages (offering trends))))"
    by (simp add: offered_offering)
  have c: "fst (display_history (click_env trends) (messages (offering trends))
             (offering trends, world0)) = None"
    by (simp add: display_history_offering)
  have d: "typed_text None = None"
    by (simp add: typed_text_def)
  have e: "trends \<noteq> []"
    by (simp add: trends_def)
  have n: "fst (chat_section (click_env trends) None (offering trends, world0)) \<noteq> Some Stop"
  proof -
    have "fst (respond (click_env trends) st) \<noteq> Some Stop" for st
    proof -
      obtain ss wd where st: "st = (ss, wd)" by (cases st)
      show ?thesis
        by (simp add: st respond_def answer_def click_env_def drawing_fixed
            get_analyst_response_fixed read_result_def error_text_def error_msg_nonempty)
    qed
    then show ?thesis
      by (simp add: chat_section_def display_history_offering handle_input_def)
  qed
  from selected_suggestion_becomes_user_turn [OF a b c d e] n show ?thesis
    by (metis fst_conv)
qed

text \<open>
  C5 as stated fails for the empty suggestion: its button queues the empty str, the
  condition of line 233 is false, and the run appends nothing.
\<close>

theorem empty_suggestion_gives_no_turn:
  "JStr [] \<in> set (concat (map offered (messages (offering [])))) \<and>
   chat_section (click_env []) None (offering [], world0) = (None, offering [], world0)"
proof -
  have "display_history (click_env []) (messages (offering [])) (offering [], world0) =
      (None, offering [], world0)"
    using display_history_offering[of "[]"] by (simp add: offering_def)
  then show ?thesis
    by (simp add: chat_section_def offered_offering handle_input_def accepted_def typed_text_def)
      (simp add: offering_def)
qed

section \<open>A reply that is not a dict\<close>

lemma not_in_hello:
  "\<not> sublist ''message'' ''hello''" "\<not> sublist ''sql'' ''hello''"
  "\<not> sublist ''suggestions'' ''hello''"
  by (simp_all add: sublist_Cons_right)

text \<open>
  C10. The claim is that the content of an assistant turn is a dict exactly when the round
  succeeded and a plain text exactly when it failed. \<open>get_analyst_response\<close> is declared to
  return a dict and the chat history tells the two kinds of turn apart by
  \<^verbatim>\<open>isinstance(content, dict)\<close>, but the decoded reply is never checked: for the reply
  \<^verbatim>\<open>"hello"\<close> the function returns the str with error \<^verbatim>\<open>None\<close>, rendering it raises
  nothing and draws nothing, and the round, which runs to its end, stores a plain text as
  the assistant turn.
\<close>

theorem text_reply_is_stored_as_text:
  "get_analyst_response text_reply_env (init_session ''m.yaml'')
      [\<lparr>role = ''user'', content = JStr ''hi''\<rparr>] world0 =
     (Inr (JStr ''hello'', None), \<lparr>analyst_queries = [sql_query hi_dumped ''m.yaml''], outside = ()\<rparr>) \<and>
   display_response text_reply_env (JStr ''hello'') (init_session ''m.yaml'', world0) =
     (None, init_session ''m.yaml'', world0) \<and>
   handle_input text_reply_env (Some ''hi'') (init_session ''m.yaml'', world0) =
     (None,
      \<lparr>messages = [\<lparr>role = ''user'', content = JStr ''hi''\<rparr>,
                   \<lparr>role = ''assistant'', content = JStr ''hello''\<rparr>],
       user_input = JStr [], selected_semantic_model_path = ''m.yaml''\<rparr>,
      \<lparr>analyst_queries = [sql_query hi_dumped ''m.yaml''], outside = ()\<rparr>)"
proof -
  have r: "read_result (fixed_env 120 (Inr [Some text_reply]) hi_dumped
       (reply_table [(text_reply, JStr ''hello'')]) (\<lambda>x. False)) (Inr [Some text_reply]) =
       Inr (JStr ''hello'', None)"
    by (simp add: read_result_def loads_row_def fixed_env_def reply_table_def)
  have g: "get_analyst_response text_reply_env (init_session ''m.yaml'')
      [\<lparr>role = ''user'', content = JStr ''hi''\<rparr>] world0 =
     (Inr (JStr ''hello'', None), \<lparr>analyst_queries = [sql_query hi_dumped ''m.yaml''], outside = ()\<rparr>)"
    by (simp add: text_reply_env_def get_analyst_response_fixed r init_session_def world0_def)
  have d: "display_response text_reply_env (JStr ''hello'') st = (None, st)" for st
    by (simp add: display_response_def show_message_def show_sql_def show_suggestions_def
        present_and_truthy_def not_in_hello)
  have h: "handle_input text_reply_env (Some ''hi'') (init_session ''m.yaml'', world0) =
     (None,
      \<lparr>messages = [\<lparr>role = ''user'', content = JStr ''hi''\<rparr>,
                   \<lparr>role = ''assistant'', content = JStr ''hello''\<rparr>],
       user_input = JStr [], selected_semantic_model_path = ''m.yaml''\<rparr>,
      \<lparr>analyst_queries = [sql_query hi_dumped ''m.yaml''], outside = ()\<rparr>)"
    by (simp add: handle_input_def accepted_def typed_text_def init_session_def world0_def
        accept_input_def append_turn_def respond_def answer_def drawing_fixed text_reply_env_def
        get_analyst_response_fixed r error_text_def d[unfolded text_reply_env_def] Let_def)
  from g d h show ?thesis by simp
qed

end
